theory Spec2Isabelle
  imports Main
begin

section \<open>Python values, exceptions and strings\<close>

text \<open>
  The collectors and the store exchange Python dictionaries whose values are strings,
  integers or \<^verbatim>\<open>None\<close> (the metadata built in \<^verbatim>\<open>download_document\<close> and
  \<^verbatim>\<open>download_filing_document\<close>, the entries of the regulator's parallel arrays).
  Strings are modelled as ASCII byte strings.
\<close>

datatype pyval = PNone | PStr string | PInt int

text \<open>Python truthiness, as used by \<^verbatim>\<open>if x\<close> and \<^verbatim>\<open>x or y\<close>.\<close>

fun truthy :: "pyval \<Rightarrow> bool" where
  "truthy PNone = False"
| "truthy (PStr s) = (s \<noteq> [])"
| "truthy (PInt n) = (n \<noteq> 0)"

definition py_or :: "pyval \<Rightarrow> pyval \<Rightarrow> pyval" where
  "py_or a b = (if truthy a then a else b)"

text \<open>
  A dictionary built by a collector is kept as the list of its items, looked up by key.
\<close>

type_synonym pydict = "(string \<times> pyval) list"

text \<open>\<^verbatim>\<open>d.get(k)\<close>: the value, or \<^verbatim>\<open>None\<close> for a missing key.\<close>

definition dict_get :: "pydict \<Rightarrow> string \<Rightarrow> pyval" where
  "dict_get d k = (case map_of d k of None \<Rightarrow> PNone | Some v \<Rightarrow> v)"

text \<open>Exceptions are values: a class and the message \<^verbatim>\<open>str(e)\<close>.\<close>

datatype exn_class =
  RequestException | OSError | JSONDecodeError | KeyError | IndexError
  | AttributeError | OtherException

datatype exn = Exn exn_class string

fun class_of :: "exn \<Rightarrow> exn_class" where
  "class_of (Exn c msg) = c"

fun message_of :: "exn \<Rightarrow> string" where
  "message_of (Exn c msg) = msg"

text \<open>Sequencing of steps that may raise: the first exception wins.\<close>

fun and_then :: "exn + 'a \<Rightarrow> ('a \<Rightarrow> exn + 'b) \<Rightarrow> exn + 'b" where
  "and_then (Inl e) f = Inl e"
| "and_then (Inr x) f = f x"

text \<open>\<^verbatim>\<open>str.upper()\<close> and \<^verbatim>\<open>str.lower()\<close> on ASCII letters.\<close>

definition upper_char :: "char \<Rightarrow> char" where
  "upper_char c =
     (let n = (of_char c :: nat) in if 97 \<le> n \<and> n \<le> 122 then char_of (n - 32) else c)"

definition lower_char :: "char \<Rightarrow> char" where
  "lower_char c =
     (let n = (of_char c :: nat) in if 65 \<le> n \<and> n \<le> 90 then char_of (n + 32) else c)"

definition upper :: "string \<Rightarrow> string" where
  "upper s = map upper_char s"

definition lower :: "string \<Rightarrow> string" where
  "lower s = map lower_char s"

section \<open>The metadata store (\<^verbatim>\<open>app/storage/data_store.py\<close>)\<close>

text \<open>
  \<^verbatim>\<open>document_metadata_store\<close> maps an upper-case ticker to a bucket, itself a
  dictionary from the source type (\<^verbatim>\<open>"ir"\<close>, \<^verbatim>\<open>"sec"\<close>) to the list of metadata
  dictionaries. A bucket restored from a snapshot may lack a source type, so the
  subscript \<^verbatim>\<open>self.document_metadata_store[ticker_upper][source_type]\<close> can raise
  \<^verbatim>\<open>KeyError\<close>.
\<close>

type_synonym doc_metadata = pydict
type_synonym bucket = "string \<rightharpoonup> doc_metadata list"

record data_store =
  companies_info :: "string \<rightharpoonup> pydict"
  document_metadata_store :: "string \<rightharpoonup> bucket"
  summary_metadata_store :: "string \<rightharpoonup> pydict"

definition initialize_empty_store :: "data_store" where
  "initialize_empty_store =
     \<lparr>companies_info = Map.empty, document_metadata_store = Map.empty,
      summary_metadata_store = Map.empty\<rparr>"

text \<open>
  The dedup key of line 46 and line 52:
  \<^verbatim>\<open>doc.get("content_hash_sha256") or doc.get("url")\<close>.
\<close>

definition doc_key_of :: "doc_metadata \<Rightarrow> pyval" where
  "doc_key_of doc = py_or (dict_get doc ''content_hash_sha256'') (dict_get doc ''url'')"

text \<open>
  Lines 51 to 57: the scan of \<^verbatim>\<open>existing_docs\<close>, which stops at the first entry
  whose key equals \<^verbatim>\<open>doc_key\<close>. It is entered only for a truthy \<^verbatim>\<open>doc_key\<close>.
\<close>

fun scan_existing :: "pyval \<Rightarrow> doc_metadata list \<Rightarrow> bool" where
  "scan_existing doc_key [] = False"
| "scan_existing doc_key (existing_doc # rest) =
     (let existing_key = doc_key_of existing_doc
      in if existing_key = doc_key then True else scan_existing doc_key rest)"

definition is_duplicate :: "doc_metadata \<Rightarrow> doc_metadata list \<Rightarrow> bool" where
  "is_duplicate doc_metadata existing_docs =
     (let doc_key = doc_key_of doc_metadata
      in if truthy doc_key then scan_existing doc_key existing_docs else False)"

definition fresh_bucket :: bucket where
  "fresh_bucket = [''ir'' \<mapsto> [], ''sec'' \<mapsto> []]"

definition add_document_metadata ::
  "string \<Rightarrow> string \<Rightarrow> doc_metadata \<Rightarrow> data_store \<Rightarrow> exn + data_store" where
  "add_document_metadata ticker source_type doc_metadata self =
     (let ticker_upper = upper ticker;
          store = (if document_metadata_store self ticker_upper = None
                   then (document_metadata_store self)(ticker_upper \<mapsto> fresh_bucket)
                   else document_metadata_store self)
      in if source_type \<noteq> ''ir'' \<and> source_type \<noteq> ''sec''
         then Inr (self\<lparr>document_metadata_store := store\<rparr>)
         else
           (case store ticker_upper of
              None \<Rightarrow> Inl (Exn KeyError ticker_upper)
            | Some b \<Rightarrow>
                (case b source_type of
                   None \<Rightarrow> Inl (Exn KeyError source_type)
                 | Some existing_docs \<Rightarrow>
                     if \<not> is_duplicate doc_metadata existing_docs
                     then Inr (self\<lparr>document_metadata_store :=
                                 store(ticker_upper \<mapsto>
                                   b(source_type \<mapsto> existing_docs @ [doc_metadata]))\<rparr>)
                     else Inr (self\<lparr>document_metadata_store := store\<rparr>))))"

text \<open>
  \<^verbatim>\<open>get_document_metadata(ticker, source_type)\<close> with a non-empty source type and no
  document identifier (lines 72 to 79 and 85): the list kept for the pair, empty when
  the ticker or the source type has no entry. \<open>doc_list\<close> is the same lookup by the
  stored key.
\<close>

definition doc_list :: "data_store \<Rightarrow> string \<Rightarrow> string \<Rightarrow> doc_metadata list" where
  "doc_list self key source_type =
     (case document_metadata_store self key of
        None \<Rightarrow> []
      | Some b \<Rightarrow> (case b source_type of None \<Rightarrow> [] | Some docs \<Rightarrow> docs))"

definition get_document_metadata :: "data_store \<Rightarrow> string \<Rightarrow> string \<Rightarrow> doc_metadata list" where
  "get_document_metadata self ticker source_type = doc_list self (upper ticker) source_type"

text \<open>
  The subscript of line 47 succeeds when the ticker has no bucket yet (one is created
  with both source types) or its bucket holds the source type.
\<close>

definition bucket_ready :: "data_store \<Rightarrow> string \<Rightarrow> string \<Rightarrow> bool" where
  "bucket_ready self ticker source_type =
     (case document_metadata_store self (upper ticker) of
        None \<Rightarrow> True
      | Some b \<Rightarrow> b source_type \<noteq> None)"


section \<open>Callers of the store (\<^verbatim>\<open>app/scheduler/tasks.py\<close>, \<^verbatim>\<open>app/api/routes.py\<close>)\<close>

text \<open>
  A download result is the dictionary returned by \<^verbatim>\<open>download_document\<close> or
  \<^verbatim>\<open>download_filing_document\<close>: \<^verbatim>\<open>success\<close>, and, when present, \<^verbatim>\<open>status\<close>,
  \<^verbatim>\<open>metadata\<close>, \<^verbatim>\<open>filepath\<close>, \<^verbatim>\<open>error\<close> and \<^verbatim>\<open>url\<close>.
\<close>

record outcome =
  res_success :: bool
  res_status :: "string option"
  res_metadata :: "doc_metadata option"
  res_filepath :: "string option"
  res_error :: "string option"
  res_url :: "string option"

text \<open>
  The loop shared by \<^verbatim>\<open>_collect_ir_for_company\<close>, \<^verbatim>\<open>_collect_sec_for_company\<close>,
  \<^verbatim>\<open>collect_ir_route\<close> and \<^verbatim>\<open>collect_sec_route\<close>:
  \<^verbatim>\<open>
  for res in results:
      if res.get("success") and res.get("status") == "downloaded":
          data_store.add_document_metadata(ticker, source, res["metadata"])
          successful_downloads += 1
  \<close>
  The state is the store and the counter \<^verbatim>\<open>successful_downloads\<close>, which counts the
  calls of \<^verbatim>\<open>add_document_metadata\<close>.
\<close>

fun store_results ::
  "string \<Rightarrow> string \<Rightarrow> outcome list \<Rightarrow> data_store \<times> nat \<Rightarrow> exn + data_store \<times> nat" where
  "store_results ticker source_type [] (store, successful_downloads) =
     Inr (store, successful_downloads)"
| "store_results ticker source_type (res # rest) (store, successful_downloads) =
     (if res_success res \<and> res_status res = Some ''downloaded''
      then (case res_metadata res of
              None \<Rightarrow> Inl (Exn KeyError ''metadata'')
            | Some doc_metadata \<Rightarrow>
                (case add_document_metadata ticker source_type doc_metadata store of
                   Inl e \<Rightarrow> Inl e
                 | Inr store' \<Rightarrow>
                     store_results ticker source_type rest (store', successful_downloads + 1)))
      else store_results ticker source_type rest (store, successful_downloads))"

text \<open>
  The four callers, given the results their collector returned. The scheduler passes
  the ticker as it is, the routes pass \<^verbatim>\<open>ticker.upper()\<close>.
\<close>

definition collect_ir_for_company :: "string \<Rightarrow> outcome list \<Rightarrow> data_store \<Rightarrow> exn + data_store \<times> nat" where
  "collect_ir_for_company ticker results store = store_results ticker ''ir'' results (store, 0)"

definition collect_sec_for_company :: "string \<Rightarrow> outcome list \<Rightarrow> data_store \<Rightarrow> exn + data_store \<times> nat" where
  "collect_sec_for_company ticker results store = store_results ticker ''sec'' results (store, 0)"

definition collect_ir_route :: "string \<Rightarrow> outcome list \<Rightarrow> data_store \<Rightarrow> exn + data_store \<times> nat" where
  "collect_ir_route ticker results store = store_results (upper ticker) ''ir'' results (store, 0)"

definition collect_sec_route :: "string \<Rightarrow> outcome list \<Rightarrow> data_store \<Rightarrow> exn + data_store \<times> nat" where
  "collect_sec_route ticker results store = store_results (upper ticker) ''sec'' results (store, 0)"

text \<open>
  The two outcomes of scenario B: a fresh download of \<^verbatim>\<open>https://example.com/10k.pdf\<close>
  and the same artifact found on disk with its sidecar.
\<close>

definition example_metadata :: doc_metadata where
  "example_metadata =
     [(''url'', PStr ''https://example.com/10k.pdf''),
      (''content_hash_sha256'', PStr ''9f86d081884c7d65'')]"

definition stored_outcome :: "doc_metadata \<Rightarrow> outcome" where
  "stored_outcome m =
     \<lparr>res_success = True, res_status = Some ''downloaded'', res_metadata = Some m,
      res_filepath = Some ''data/raw/AAPL/ir/10-K/20240101_ab.pdf'', res_error = None,
      res_url = None\<rparr>"

definition already_present_outcome :: "doc_metadata \<Rightarrow> outcome" where
  "already_present_outcome m =
     \<lparr>res_success = True, res_status = Some ''skipped_exists'', res_metadata = Some m,
      res_filepath = Some ''data/raw/AAPL/ir/10-K/20240101_ab.pdf'', res_error = None,
      res_url = None\<rparr>"

text \<open>
  The reading of the specification: every outcome that carries metadata is handed to
  \<^verbatim>\<open>add_document\<close>, whatever its status.
\<close>

fun funnel_all ::
  "string \<Rightarrow> string \<Rightarrow> outcome list \<Rightarrow> data_store \<times> nat \<Rightarrow> exn + data_store \<times> nat" where
  "funnel_all ticker source_type [] (store, calls) = Inr (store, calls)"
| "funnel_all ticker source_type (res # rest) (store, calls) =
     (case res_metadata res of
        None \<Rightarrow> funnel_all ticker source_type rest (store, calls)
      | Some doc_metadata \<Rightarrow>
          (case add_document_metadata ticker source_type doc_metadata store of
             Inl e \<Rightarrow> Inl e
           | Inr store' \<Rightarrow> funnel_all ticker source_type rest (store', calls + 1)))"

text \<open>
  The guard of the callers, and the calls it lets through: \<^verbatim>\<open>add_document_metadata\<close>
  once for each of the given \<^verbatim>\<open>res["metadata"]\<close> in turn, each call counted; a
  result without the key raises \<^verbatim>\<open>KeyError\<close>.
\<close>

definition downloaded :: "outcome \<Rightarrow> bool" where
  "downloaded res = (res_success res \<and> res_status res = Some ''downloaded'')"

fun add_each ::
  "string \<Rightarrow> string \<Rightarrow> doc_metadata option list \<Rightarrow> data_store \<times> nat \<Rightarrow> exn + data_store \<times> nat" where
  "add_each ticker source_type [] (store, calls) = Inr (store, calls)"
| "add_each ticker source_type (None # rest) (store, calls) = Inl (Exn KeyError ''metadata'')"
| "add_each ticker source_type (Some doc_metadata # rest) (store, calls) =
     (case add_document_metadata ticker source_type doc_metadata store of
        Inl e \<Rightarrow> Inl e
      | Inr store' \<Rightarrow> add_each ticker source_type rest (store', calls + 1))"

text \<open>
  What a caller can observe of a collection run afterwards: the documents recorded for
  the pair and the number of calls of \<^verbatim>\<open>add_document_metadata\<close>.
\<close>

definition observed :: "string \<Rightarrow> string \<Rightarrow> exn + data_store \<times> nat \<Rightarrow> exn + doc_metadata list \<times> nat" where
  "observed ticker source_type r =
     (case r of Inl e \<Rightarrow> Inl e
      | Inr (store, calls) \<Rightarrow> Inr (get_document_metadata store ticker source_type, calls))"

text \<open>Sample metadata and stores for the concrete instances below.\<close>

definition mirror_metadata :: doc_metadata where
  "mirror_metadata =
     [(''url'', PStr ''https://mirror.example.com/annual.pdf''),
      (''content_hash_sha256'', PStr ''9f86d081884c7d65'')]"

definition keyless_metadata :: doc_metadata where
  "keyless_metadata = [(''filename'', PStr ''notes.txt''), (''url'', PStr '''')]"

definition url_only_metadata :: doc_metadata where
  "url_only_metadata = [(''url'', PStr ''https://example.com/q3.pdf'')]"

definition url_only_again :: doc_metadata where
  "url_only_again =
     [(''url'', PStr ''https://example.com/q3.pdf''), (''filename'', PStr ''q3-copy.pdf'')]"

definition store_with :: "doc_metadata list \<Rightarrow> data_store" where
  "store_with docs =
     \<lparr>companies_info = Map.empty,
      document_metadata_store = [''AAPL'' \<mapsto> [''ir'' \<mapsto> docs, ''sec'' \<mapsto> []]],
      summary_metadata_store = Map.empty\<rparr>"

section \<open>The company universe (\<^verbatim>\<open>app/collectors/companies.py\<close>)\<close>

text \<open>
  \<^verbatim>\<open>get_fortune_100()\<close> returns the data frame read from the universe file. A row has
  a company name, a ticker and a \<^verbatim>\<open>cik\<close> cell. A cell that the file leaves empty is
  read as a missing value (NaN); \<open>Value s\<close> is a cell whose rendering by
  \<^verbatim>\<open>astype(str)\<close> is \<open>s\<close>. A missing value is rendered as \<^verbatim>\<open>nan\<close>.
\<close>

datatype cell = Missing | Value string

record company_row =
  row_company :: string
  row_ticker :: string
  row_cik :: cell

fun astype_str :: "cell \<Rightarrow> string" where
  "astype_str Missing = ''nan''"
| "astype_str (Value s) = s"

text \<open>\<^verbatim>\<open>str.zfill(width)\<close>: zeros on the left, after a leading sign.\<close>

definition zfill :: "nat \<Rightarrow> string \<Rightarrow> string" where
  "zfill width s =
     (if width \<le> length s then s
      else (case s of
              [] \<Rightarrow> replicate width (CHR ''0'')
            | c # rest \<Rightarrow>
                if c = CHR ''+'' \<or> c = CHR ''-''
                then c # replicate (width - length s) (CHR ''0'') @ rest
                else replicate (width - length s) (CHR ''0'') @ s))"

text \<open>
  \<^verbatim>\<open>
  def get_company_cik(ticker):
      df = get_fortune_100()
      df['cik'] = df['cik'].astype(str).str.zfill(10)
      company = df[df['ticker'].str.upper() == ticker.upper()]
      if not company.empty:
          return company.iloc[0]['cik']
      return None
  \<close>
\<close>

definition get_company_cik :: "company_row list \<Rightarrow> string \<Rightarrow> string option" where
  "get_company_cik df ticker =
     (let company = filter (\<lambda>row. upper (row_ticker row) = upper ticker) df
      in case company of
           [] \<Rightarrow> None
         | row # _ \<Rightarrow> Some (zfill 10 (astype_str (row_cik row))))"

section \<open>The filing resolver (\<^verbatim>\<open>app/collectors/sec_fetcher.py\<close>)\<close>

text \<open>
  The dictionary that \<^verbatim>\<open>_make_request\<close> returns: an \<^verbatim>\<open>error\<close> entry when the
  request failed (every transport and decoding exception is caught there), else the
  decoded submissions document, whose \<^verbatim>\<open>filings\<close> entry holds under \<^verbatim>\<open>recent\<close> the
  parallel arrays, one per field name.
\<close>

type_synonym recent = "string \<rightharpoonup> pyval list"

record submissions_data =
  sd_error :: "string option"
  sd_filings :: "(string \<rightharpoonup> recent) option"

text \<open>
  The network is a function from the URL to the dictionary \<^verbatim>\<open>_make_request\<close> returns
  for it. Each operation returns, next to its result, the list of the URLs it requested.
\<close>

type_synonym network = "string \<Rightarrow> submissions_data"

definition make_request :: "network \<Rightarrow> string \<Rightarrow> submissions_data \<times> string list" where
  "make_request net url = (net url, [url])"

definition get_company_submissions ::
  "company_row list \<Rightarrow> network \<Rightarrow> string \<Rightarrow> submissions_data \<times> string list" where
  "get_company_submissions df net ticker =
     (case get_company_cik df ticker of
        None \<Rightarrow>
          (\<lparr>sd_error = Some (''CIK not found for ticker '' @ ticker), sd_filings = None\<rparr>, [])
      | Some cik_str \<Rightarrow>
          if cik_str = []
          then (\<lparr>sd_error = Some (''CIK not found for ticker '' @ ticker), sd_filings = None\<rparr>, [])
          else make_request net (''https://data.sec.gov/submissions/CIK'' @ cik_str @ ''.json''))"

text \<open>Subscripts: \<^verbatim>\<open>recent[k]\<close>, \<^verbatim>\<open>xs[i]\<close> for \<open>i \<ge> 0\<close>, and \<^verbatim>\<open>recent.get(k, default)\<close>.\<close>

definition subscript :: "recent \<Rightarrow> string \<Rightarrow> exn + pyval list" where
  "subscript recent k = (case recent k of None \<Rightarrow> Inl (Exn KeyError k) | Some xs \<Rightarrow> Inr xs)"

definition index :: "'a list \<Rightarrow> nat \<Rightarrow> exn + 'a" where
  "index xs i = (if i < length xs then Inr (xs ! i) else Inl (Exn IndexError ''list index out of range''))"

definition get_or :: "recent \<Rightarrow> string \<Rightarrow> pyval list \<Rightarrow> pyval list" where
  "get_or recent k dflt = (case recent k of None \<Rightarrow> dflt | Some xs \<Rightarrow> xs)"

record filing_info =
  fi_accessionNumber :: pyval
  fi_filingDate :: pyval
  fi_reportDate :: pyval
  fi_form :: pyval
  fi_primaryDocument :: pyval
  fi_primaryDocDescription :: pyval
  fi_size :: pyval

text \<open>
  Lines 195 to 203: the dictionary literal, its values evaluated in the order written.
\<close>

definition make_filing_info :: "recent \<Rightarrow> nat \<Rightarrow> pyval \<Rightarrow> exn + filing_info" where
  "make_filing_info recent i form =
     and_then (and_then (subscript recent ''accessionNumber'') (\<lambda>xs. index xs i)) (\<lambda>accessionNumber.
     and_then (and_then (subscript recent ''filingDate'') (\<lambda>xs. index xs i)) (\<lambda>filingDate.
     and_then (index (get_or recent ''reportDate'' [PStr '''']) i) (\<lambda>reportDate.
     and_then (and_then (subscript recent ''primaryDocument'') (\<lambda>xs. index xs i)) (\<lambda>primaryDocument.
     and_then (index (get_or recent ''primaryDocDescription'' [PStr '''']) i) (\<lambda>primaryDocDescription.
     and_then (index (get_or recent ''size'' [PNone]) i) (\<lambda>size.
     Inr \<lparr>fi_accessionNumber = accessionNumber, fi_filingDate = filingDate,
          fi_reportDate = reportDate, fi_form = form, fi_primaryDocument = primaryDocument,
          fi_primaryDocDescription = primaryDocDescription, fi_size = size\<rparr>))))))"

text \<open>
  Lines 193 to 204, the body of the \<^verbatim>\<open>try\<close> up to the append: the filing to append,
  or nothing when the form is not one of \<^verbatim>\<open>form_types\<close>.
\<close>

definition try_filing :: "recent \<Rightarrow> string list \<Rightarrow> nat \<Rightarrow> exn + filing_info option" where
  "try_filing recent form_types i =
     and_then (and_then (subscript recent ''form'') (\<lambda>xs. index xs i)) (\<lambda>form.
       if form \<in> set (map PStr form_types)
       then and_then (make_filing_info recent i form) (\<lambda>filing_info. Inr (Some filing_info))
       else Inr None)"

text \<open>
  Lines 191 to 209: the loop over \<^verbatim>\<open>range(num_filings)\<close>. An \<^verbatim>\<open>IndexError\<close> ends
  the loop, any other exception leaves the function; the loop also ends once
  \<^verbatim>\<open>count\<close> filings are collected, which is tested after the append.
\<close>

fun filings_loop ::
  "recent \<Rightarrow> string list \<Rightarrow> int \<Rightarrow> nat list \<Rightarrow> filing_info list \<Rightarrow> exn + filing_info list" where
  "filings_loop recent form_types count [] recent_filings_list = Inr recent_filings_list"
| "filings_loop recent form_types count (i # rest) recent_filings_list =
     (case try_filing recent form_types i of
        Inl e \<Rightarrow> if class_of e = IndexError then Inr recent_filings_list else Inl e
      | Inr None \<Rightarrow> filings_loop recent form_types count rest recent_filings_list
      | Inr (Some filing_info) \<Rightarrow>
          (let appended = recent_filings_list @ [filing_info]
           in if int (length appended) \<ge> count then Inr appended
              else filings_loop recent form_types count rest appended))"

definition default_form_types :: "string list" where
  "default_form_types = [''10-K'', ''10-Q'', ''8-K'']"

definition get_recent_filings_metadata ::
  "company_row list \<Rightarrow> network \<Rightarrow> string \<Rightarrow> string list option \<Rightarrow> int
     \<Rightarrow> (exn + filing_info list) \<times> string list" where
  "get_recent_filings_metadata df net ticker form_types_arg count =
     (let form_types = (case form_types_arg of None \<Rightarrow> default_form_types | Some fts \<Rightarrow> fts);
          (submissions_data, requests) = get_company_submissions df net ticker
      in if sd_error submissions_data \<noteq> None then (Inr [], requests)
         else (case sd_filings submissions_data of
                 None \<Rightarrow> (Inr [], requests)
               | Some filings \<Rightarrow>
                   (case filings ''recent'' of
                      None \<Rightarrow> (Inr [], requests)
                    | Some recent \<Rightarrow>
                        (let num_filings = length (get_or recent ''accessionNumber'' [])
                         in (filings_loop recent form_types count [0..<num_filings] [], requests)))))"

text \<open>
  The reading of the specification, for a payload of parallel arrays: the indices up to
  the first one that is out of range of an array consumed there, filtered to the
  requested forms, each turned into its descriptor.
\<close>

definition wanted :: "recent \<Rightarrow> string list \<Rightarrow> nat \<Rightarrow> bool" where
  "wanted recent form_types i = (get_or recent ''form'' [] ! i \<in> set (map PStr form_types))"

definition index_ok :: "recent \<Rightarrow> string list \<Rightarrow> nat \<Rightarrow> bool" where
  "index_ok recent form_types i =
     (if i < length (get_or recent ''form'' [])
      then (if wanted recent form_types i
            then i < length (get_or recent ''accessionNumber'' [])
               \<and> i < length (get_or recent ''filingDate'' [])
               \<and> i < length (get_or recent ''reportDate'' [PStr ''''])
               \<and> i < length (get_or recent ''primaryDocument'' [])
               \<and> i < length (get_or recent ''primaryDocDescription'' [PStr ''''])
               \<and> i < length (get_or recent ''size'' [PNone])
            else True)
      else False)"

definition descriptor :: "recent \<Rightarrow> nat \<Rightarrow> filing_info" where
  "descriptor recent i =
     \<lparr>fi_accessionNumber = get_or recent ''accessionNumber'' [] ! i,
      fi_filingDate = get_or recent ''filingDate'' [] ! i,
      fi_reportDate = get_or recent ''reportDate'' [PStr ''''] ! i,
      fi_form = get_or recent ''form'' [] ! i,
      fi_primaryDocument = get_or recent ''primaryDocument'' [] ! i,
      fi_primaryDocDescription = get_or recent ''primaryDocDescription'' [PStr ''''] ! i,
      fi_size = get_or recent ''size'' [PNone] ! i\<rparr>"

definition filtered_prefix :: "recent \<Rightarrow> string list \<Rightarrow> nat list \<Rightarrow> filing_info list" where
  "filtered_prefix recent form_types indices =
     map (descriptor recent)
       (filter (wanted recent form_types) (takeWhile (index_ok recent form_types) indices))"

text \<open>Sample universe and payloads for the concrete instances below.\<close>

definition zzz_universe :: "company_row list" where
  "zzz_universe =
     [\<lparr>row_company = ''Walmart'', row_ticker = ''WMT'', row_cik = Value ''104169''\<rparr>,
      \<lparr>row_company = ''Zeta Holdings'', row_ticker = ''ZZZ'', row_cik = Missing\<rparr>]"

definition ragged_recent :: recent where
  "ragged_recent =
     [''accessionNumber'' \<mapsto> [PStr ''a-1'', PStr ''a-2'', PStr ''a-3'', PStr ''a-4''],
      ''form'' \<mapsto> [PStr ''10-K'', PStr ''4'', PStr ''10-Q'', PStr ''8-K''],
      ''filingDate'' \<mapsto> [PStr ''2024-02-01'', PStr ''2024-01-15''],
      ''reportDate'' \<mapsto> [PStr ''2023-12-31'', PStr '''', PStr ''2023-09-30'', PStr ''''],
      ''primaryDocument'' \<mapsto> [PStr ''k.htm'', PStr ''f4.xml'', PStr ''q.htm'', PStr ''e.htm''],
      ''primaryDocDescription'' \<mapsto> [PStr ''10-K'', PStr ''4'', PStr ''10-Q'', PStr ''8-K''],
      ''size'' \<mapsto> [PInt 100, PInt 20, PInt 300, PInt 40]]"

definition ragged_network :: network where
  "ragged_network url = \<lparr>sd_error = None, sd_filings = Some [''recent'' \<mapsto> ragged_recent]\<rparr>"

section \<open>Link discovery (\<^verbatim>\<open>app/collectors/ir_scraper.py\<close>)\<close>

text \<open>String operations of the scraper: \<^verbatim>\<open>startswith\<close>, \<^verbatim>\<open>endswith\<close>, \<^verbatim>\<open>sub in s\<close>,
  \<^verbatim>\<open>strip()\<close> and \<^verbatim>\<open>replace(" ", "")\<close>.\<close>

definition startswith :: "string \<Rightarrow> string \<Rightarrow> bool" where
  "startswith s p = (take (length p) s = p)"

definition endswith :: "string \<Rightarrow> string \<Rightarrow> bool" where
  "endswith s p = (length p \<le> length s \<and> drop (length s - length p) s = p)"

fun contains :: "string \<Rightarrow> string \<Rightarrow> bool" where
  "contains sub [] = (sub = [])"
| "contains sub (c # cs) = (startswith (c # cs) sub \<or> contains sub cs)"

definition is_space :: "char \<Rightarrow> bool" where
  "is_space c = (let n = (of_char c :: nat) in (9 \<le> n \<and> n \<le> 13) \<or> (28 \<le> n \<and> n \<le> 32))"

definition strip :: "string \<Rightarrow> string" where
  "strip s = rev (dropWhile is_space (rev (dropWhile is_space s)))"

definition remove_spaces :: "string \<Rightarrow> string" where
  "remove_spaces kw = filter (\<lambda>c. c \<noteq> CHR '' '') kw"

text \<open>An anchor of the rendered page: \<^verbatim>\<open>a_tag.text\<close> and \<^verbatim>\<open>a_tag["href"]\<close>.\<close>

record anchor =
  a_text :: string
  a_href :: string

text \<open>The keyword table of lines 107 to 115, in the order a dictionary iterates.\<close>

definition keywords_doc_type :: "(string \<times> string list) list" where
  "keywords_doc_type =
     [(''10-K'', [''10-k'', ''annual report'']),
      (''10-Q'', [''10-q'', ''quarterly report'']),
      (''8-K'', [''8-k'', ''current report'']),
      (''Earnings Release'', [''earnings release'', ''results announcement'']),
      (''Presentation'', [''presentation'', ''slide deck'', ''investor deck'', ''webcast slides'']),
      (''Transcript'', [''transcript'', ''earnings call transcript'']),
      (''SEC Filings'', [''sec filings'', ''edgar filings''])]"

definition generic_keywords :: "string list" where
  "generic_keywords = [''financials'', ''report'', ''filing'', ''investor'', ''quarterly'', ''annual'']"

definition document_extensions :: "string list" where
  "document_extensions = [''.pdf'', ''.xls'', ''.xlsx'', ''.doc'', ''.docx'', ''.ppt'', ''.pptx'']"

text \<open>Lines 125 to 128: the first keyword group with a keyword in the link text.\<close>

fun text_pass :: "(string \<times> string list) list \<Rightarrow> string \<Rightarrow> string \<Rightarrow> string" where
  "text_pass [] link_text matched_doc_type = matched_doc_type"
| "text_pass ((doc_type, type_keywords) # rest) link_text matched_doc_type =
     (if list_ex (\<lambda>kw. contains kw link_text) type_keywords then doc_type
      else text_pass rest link_text matched_doc_type)"

text \<open>Lines 132 to 135: the same over the href, the keywords without their spaces.\<close>

fun href_pass :: "(string \<times> string list) list \<Rightarrow> string \<Rightarrow> string \<Rightarrow> string" where
  "href_pass [] href matched_doc_type = matched_doc_type"
| "href_pass ((doc_type, type_keywords) # rest) href matched_doc_type =
     (if list_ex (\<lambda>kw. contains (remove_spaces kw) (lower href)) type_keywords then doc_type
      else href_pass rest href matched_doc_type)"

text \<open>Lines 138 to 151: the generic keywords and the document extensions.\<close>

definition generic_pass :: "string \<Rightarrow> string \<Rightarrow> string \<Rightarrow> string" where
  "generic_pass link_text href matched_doc_type =
     (if matched_doc_type = ''Other''
         \<and> list_ex (\<lambda>gk. contains gk link_text \<or> contains gk (lower href)) generic_keywords
      then (if list_ex (\<lambda>ext. endswith (lower href) ext) document_extensions
            then (if list_ex (\<lambda>tag. contains tag link_text)
                       [''10-k'', ''10-q'', ''earnings'', ''slide'', ''transcript'']
                  then (if contains ''10-k'' link_text then ''10-K''
                        else if contains ''10-q'' link_text then ''10-Q''
                        else if contains ''earnings'' link_text then ''Earnings Release''
                        else if contains ''slide'' link_text then ''Presentation''
                        else if contains ''transcript'' link_text then ''Transcript''
                        else matched_doc_type)
                  else ''Financial Document'')
            else matched_doc_type)
      else matched_doc_type)"

text \<open>
  Lines 124 to 151 for one anchor: the value of \<^verbatim>\<open>matched_doc_type\<close> when line 153 is
  reached, from the lower-cased, stripped link text and the href.
\<close>

definition classify :: "string \<Rightarrow> string \<Rightarrow> string" where
  "classify link_text href =
     (let matched_doc_type = text_pass keywords_doc_type link_text ''Other'';
          matched_doc_type =
            (if matched_doc_type = ''Other''
             then href_pass keywords_doc_type href matched_doc_type
             else matched_doc_type)
      in generic_pass link_text href matched_doc_type)"

record link =
  l_url :: string
  l_text :: string
  l_type :: string
  l_source_page :: string

text \<open>
  Lines 117 to 160: the loop over the anchors, appending to \<^verbatim>\<open>links_found\<close>.
  \<^verbatim>\<open>urljoin\<close> of the standard library is a parameter.
\<close>

definition skipped_href :: "string \<Rightarrow> bool" where
  "skipped_href href = (href = [] \<or> startswith href ''#'' \<or> startswith href ''javascript:'')"

fun links_loop ::
  "(string \<Rightarrow> string \<Rightarrow> string) \<Rightarrow> string \<Rightarrow> anchor list \<Rightarrow> link list \<Rightarrow> link list" where
  "links_loop urljoin actual_page_url [] links_found = links_found"
| "links_loop urljoin actual_page_url (a_tag # rest) links_found =
     (let link_text = lower (strip (a_text a_tag));
          href = a_href a_tag
      in if skipped_href href then links_loop urljoin actual_page_url rest links_found
         else (let matched_doc_type = classify link_text href
               in if matched_doc_type \<noteq> ''Other''
                  then links_loop urljoin actual_page_url rest
                         (links_found @
                            [\<lparr>l_url = urljoin actual_page_url href,
                              l_text = strip (a_text a_tag),
                              l_type = matched_doc_type,
                              l_source_page = actual_page_url\<rparr>])
                  else links_loop urljoin actual_page_url rest links_found))"

definition document_type_tags :: "string list" where
  "document_type_tags =
     [''10-K'', ''10-Q'', ''8-K'', ''Earnings Release'', ''Presentation'', ''Transcript'',
      ''SEC Filings'', ''Financial Document'', ''Other'']"

section \<open>Snapshot load and save (\<^verbatim>\<open>app/storage/data_store.py\<close>)\<close>

text \<open>
  A decoded JSON value, as \<^verbatim>\<open>json.load\<close> returns it; an object is the list of its
  members, a number is kept as an integer.
\<close>

datatype json =
  JNull | JBool bool | JNum int | JStr string | JArr "json list" | JObj "(string \<times> json) list"

text \<open>
  The three attributes of the store as \<^verbatim>\<open>_load_from_json\<close> leaves them. They hold
  whatever values the members of the snapshot are: nothing checks their shape. The
  operations of the store modelled above work on attributes of the expected shape, for
  which \<open>data_store\<close> is the typed reading; \<open>initialize_empty_store\<close> is that reading
  of \<open>empty_attributes\<close>.
\<close>

record store_attributes =
  attr_companies_info :: json
  attr_document_metadata_store :: json
  attr_summary_metadata_store :: json

text \<open>\<^verbatim>\<open>_initialize_empty_store\<close>: three empty dictionaries.\<close>

definition empty_attributes :: store_attributes where
  "empty_attributes =
     \<lparr>attr_companies_info = JObj [], attr_document_metadata_store = JObj [],
      attr_summary_metadata_store = JObj []\<rparr>"

text \<open>
  The snapshot file as \<^verbatim>\<open>_load_from_json\<close> meets it: absent; present but not
  readable; readable but not JSON text; or the JSON text of a value.
\<close>

datatype file_content = NoFile | Unreadable | NotJson | JsonText json

fun path_exists :: "file_content \<Rightarrow> bool" where
  "path_exists NoFile = False"
| "path_exists _ = True"

text \<open>Lines 153 and 154: \<^verbatim>\<open>open\<close> and \<^verbatim>\<open>json.load\<close>.\<close>

fun read_json :: "file_content \<Rightarrow> exn + json" where
  "read_json NoFile = Inl (Exn OSError ''No such file or directory'')"
| "read_json Unreadable = Inl (Exn OSError ''Permission denied'')"
| "read_json NotJson = Inl (Exn JSONDecodeError ''Expecting value'')"
| "read_json (JsonText loaded_data) = Inr loaded_data"

text \<open>
  \<^verbatim>\<open>loaded_data.get(key, default)\<close>: the member or the default when the decoded value
  is a dictionary; any other decoded value has no method \<^verbatim>\<open>get\<close>.
\<close>

fun json_get :: "json \<Rightarrow> string \<Rightarrow> json \<Rightarrow> exn + json" where
  "json_get (JObj members) key dflt =
     Inr (case map_of members key of None \<Rightarrow> dflt | Some v \<Rightarrow> v)"
| "json_get loaded_data key dflt = Inl (Exn AttributeError ''object has no attribute get'')"

text \<open>Lines 153 to 159, the body of the \<^verbatim>\<open>try\<close>.\<close>

definition try_load :: "file_content \<Rightarrow> exn + store_attributes" where
  "try_load file =
     and_then (read_json file) (\<lambda>loaded_data.
     and_then (json_get loaded_data ''companies_info'' (JObj [])) (\<lambda>companies.
     and_then (json_get loaded_data ''document_metadata_store'' (JObj [])) (\<lambda>documents.
     and_then (json_get loaded_data ''summary_metadata_store'' (JObj [])) (\<lambda>summaries.
     and_then (json_get loaded_data ''last_saved_at'' JNull) (\<lambda>last_saved_at.
       Inr \<lparr>attr_companies_info = companies, attr_document_metadata_store = documents,
            attr_summary_metadata_store = summaries\<rparr>)))))"

text \<open>
  \<^verbatim>\<open>DataStore.__init__\<close> with \<^verbatim>\<open>_load_from_json\<close>: the attributes a process starts
  with. Both \<^verbatim>\<open>except\<close> clauses and the \<^verbatim>\<open>else\<close> of line 166 call
  \<^verbatim>\<open>_initialize_empty_store\<close>.
\<close>

definition load_from_json :: "file_content \<Rightarrow> store_attributes" where
  "load_from_json file =
     (if path_exists file
      then (case try_load file of
              Inr loaded \<Rightarrow> loaded
            | Inl e \<Rightarrow>
                if class_of e = JSONDecodeError then empty_attributes
                else empty_attributes)
      else empty_attributes)"

text \<open>
  \<^verbatim>\<open>save_to_json\<close>: what the file holds afterwards. The write may fail at
  \<^verbatim>\<open>os.makedirs\<close> or at \<^verbatim>\<open>open\<close>, which leave the file as it was, or during
  \<^verbatim>\<open>json.dump\<close>, after \<^verbatim>\<open>open(..., 'w')\<close> has truncated it; every exception is caught
  and printed, so the operation itself never raises.
\<close>

datatype write_fault = NoFault | MakedirsFails | OpenFails | DumpFails

definition save_to_json ::
  "string \<Rightarrow> write_fault \<Rightarrow> store_attributes \<Rightarrow> file_content \<Rightarrow> file_content" where
  "save_to_json now fault self file =
     (let data_to_save =
            JObj [(''companies_info'', attr_companies_info self),
                  (''document_metadata_store'', attr_document_metadata_store self),
                  (''summary_metadata_store'', attr_summary_metadata_store self),
                  (''last_saved_at'', JStr now)]
      in case fault of
           NoFault \<Rightarrow> JsonText data_to_save
         | MakedirsFails \<Rightarrow> file
         | OpenFails \<Rightarrow> file
         | DumpFails \<Rightarrow> NotJson)"

text \<open>
  The expected structure of the three families: companies and summaries are
  dictionaries of dictionaries; the document store maps a ticker to a dictionary from
  the source type to a list of metadata dictionaries.
\<close>

fun is_object :: "json \<Rightarrow> bool" where
  "is_object (JObj members) = True"
| "is_object _ = False"

fun object_of :: "(json \<Rightarrow> bool) \<Rightarrow> json \<Rightarrow> bool" where
  "object_of shape (JObj members) = list_all (\<lambda>member. shape (snd member)) members"
| "object_of shape _ = False"

fun array_of :: "(json \<Rightarrow> bool) \<Rightarrow> json \<Rightarrow> bool" where
  "array_of shape (JArr items) = list_all shape items"
| "array_of shape _ = False"

definition expected_structure :: "store_attributes \<Rightarrow> bool" where
  "expected_structure self =
     (object_of is_object (attr_companies_info self)
      \<and> object_of (object_of (array_of is_object)) (attr_document_metadata_store self)
      \<and> object_of is_object (attr_summary_metadata_store self))"

text \<open>
  A well-formed snapshot file: the JSON text of a dictionary that holds the three
  families in their expected structure and the time of the save.
\<close>

fun is_string :: "json \<Rightarrow> bool" where
  "is_string (JStr s) = True"
| "is_string _ = False"

fun member_fits :: "(json \<Rightarrow> bool) \<Rightarrow> (string \<times> json) list \<Rightarrow> string \<Rightarrow> bool" where
  "member_fits shape members key =
     (case map_of members key of None \<Rightarrow> False | Some v \<Rightarrow> shape v)"

fun well_formed_snapshot :: "file_content \<Rightarrow> bool" where
  "well_formed_snapshot (JsonText (JObj members)) =
     (member_fits (object_of is_object) members ''companies_info''
      \<and> member_fits (object_of (object_of (array_of is_object))) members ''document_metadata_store''
      \<and> member_fits (object_of is_object) members ''summary_metadata_store''
      \<and> member_fits is_string members ''last_saved_at'')"
| "well_formed_snapshot _ = False"

text \<open>The file holds the JSON text of a dictionary.\<close>

fun holds_object :: "file_content \<Rightarrow> bool" where
  "holds_object (JsonText (JObj members)) = True"
| "holds_object _ = False"

text \<open>
  Snapshot files that are JSON text of a dictionary whose members do not have the
  expected structure.
\<close>

definition list_for_documents :: file_content where
  "list_for_documents = JsonText (JObj [(''document_metadata_store'', JArr [JNum 1, JNum 2])])"

definition null_for_companies :: file_content where
  "null_for_companies = JsonText (JObj [(''companies_info'', JNull)])"

section \<open>Downloading (\<^verbatim>\<open>ir_scraper.py\<close>, \<^verbatim>\<open>sec_fetcher.py\<close>)\<close>

text \<open>\<^verbatim>\<open>os.path.join\<close> and the extension part of \<^verbatim>\<open>os.path.splitext\<close>, for POSIX paths.\<close>

definition join2 :: "string \<Rightarrow> string \<Rightarrow> string" where
  "join2 a b =
     (if startswith b ''/'' then b
      else if a = [] \<or> endswith a ''/'' then a @ b
      else a @ ''/'' @ b)"

fun path_join :: "string list \<Rightarrow> string" where
  "path_join [] = []"
| "path_join (a # rest) = foldl join2 a rest"

definition splitext_ext :: "string \<Rightarrow> string" where
  "splitext_ext p =
     (let base = rev (takeWhile (\<lambda>c. c \<noteq> CHR ''/'') (rev p))
      in if CHR ''.'' \<in> set base
         then (let suffix = rev (takeWhile (\<lambda>c. c \<noteq> CHR ''.'') (rev base));
                   stem = take (length base - length suffix - 1) base
               in if list_ex (\<lambda>c. c \<noteq> CHR ''.'') stem then CHR ''.'' # suffix else [])
         else [])"

text \<open>
  What the outside world answers during one download call: the clock, the hash of the
  URL, the result of each filesystem and network step. A step that fails answers with
  the exception it raises.
\<close>

record http_response =
  resp_content_type :: "string option"

record io_env =
  env_raw_data_dir :: string
  env_relpath :: "string \<Rightarrow> string"
  env_today :: string
  env_now :: string
  env_md5 :: "string \<Rightarrow> string"
  env_makedirs :: "exn option"
  env_file_exists :: bool
  env_meta_exists :: bool
  env_read_meta :: "exn + doc_metadata"
  env_http_get :: "exn + http_response"
  env_write_file :: "exn option"
  env_hash_file :: "exn + string"
  env_write_meta :: "exn option"

text \<open>A step without a result: nothing, or the exception.\<close>

fun step :: "exn option \<Rightarrow> exn + unit" where
  "step None = Inr ()"
| "step (Some e) = Inl e"

text \<open>Lines 226 to 231: the extension for the declared content type.\<close>

definition refine_extension :: "string \<Rightarrow> string \<Rightarrow> string" where
  "refine_extension content_type file_extension =
     (if contains ''pdf'' content_type then ''.pdf''
      else if contains ''excel'' content_type \<or> contains ''spreadsheetml'' content_type then ''.xlsx''
      else if contains ''powerpoint'' content_type \<or> contains ''presentationml'' content_type then ''.pptx''
      else if contains ''msword'' content_type \<or> contains ''wordprocessingml'' content_type then ''.docx''
      else if contains ''text/plain'' content_type then ''.txt''
      else file_extension)"

text \<open>
  Lines 219 to 268 of \<^verbatim>\<open>download_document\<close>, the body of the \<^verbatim>\<open>try\<close>: request, status
  check, extension refinement, write of the body, hash of the file read back, sidecar.
\<close>

definition fetch_and_persist_ir ::
  "io_env \<Rightarrow> link \<Rightarrow> string \<Rightarrow> string \<Rightarrow> string \<Rightarrow> exn + outcome" where
  "fetch_and_persist_ir env doc_info company_dir filename_base file_extension =
     and_then (env_http_get env) (\<lambda>response.
       let content_type = lower (case resp_content_type response of None \<Rightarrow> [] | Some v \<Rightarrow> v);
           new_ext = (if file_extension = ''.html''
                      then refine_extension content_type file_extension
                      else file_extension);
           filename = filename_base @ new_ext;
           filepath = path_join [company_dir, filename]
       in and_then (step (env_write_file env)) (\<lambda>_.
          and_then (env_hash_file env) (\<lambda>content_hash.
            let metadata =
                  [(''url'', PStr (l_url doc_info)),
                   (''original_link_text'', PStr (l_text doc_info)),
                   (''detected_document_type'', PStr (l_type doc_info)),
                   (''content_type_header'', PStr content_type),
                   (''downloaded_at'', PStr (env_now env)),
                   (''source_page'', PStr (l_source_page doc_info)),
                   (''content_hash_sha256'', PStr content_hash),
                   (''filename'', PStr filename),
                   (''filepath_relative'', PStr (env_relpath env filepath))]
            in and_then (step (env_write_meta env)) (\<lambda>_.
                 Inr \<lparr>res_success = True, res_status = Some ''downloaded'',
                      res_metadata = Some metadata, res_filepath = Some filepath,
                      res_error = None, res_url = None\<rparr>))))"

text \<open>The two \<^verbatim>\<open>except\<close> clauses that close the \<^verbatim>\<open>try\<close> of both download operations.\<close>

definition failed_outcome :: "exn \<Rightarrow> string \<Rightarrow> outcome" where
  "failed_outcome e url =
     \<lparr>res_success = False,
      res_status = Some (if class_of e = RequestException then ''failed_download''
                         else ''failed_unexpected''),
      res_metadata = None, res_filepath = None, res_error = Some (message_of e),
      res_url = Some url\<rparr>"

definition catch_all :: "string \<Rightarrow> exn + outcome \<Rightarrow> outcome" where
  "catch_all url attempt = (case attempt of Inr result \<Rightarrow> result | Inl e \<Rightarrow> failed_outcome e url)"

text \<open>
  \<^verbatim>\<open>IRScraper.download_document\<close>. \<^verbatim>\<open>os.makedirs\<close> (line 189) and the read of an
  existing sidecar (lines 207 and 208) stand before the \<^verbatim>\<open>try\<close>: what they raise
  leaves the function.
\<close>

definition download_document :: "io_env \<Rightarrow> string \<Rightarrow> link \<Rightarrow> exn + outcome" where
  "download_document env ticker doc_info =
     (let url = l_url doc_info;
          doc_type_from_link = l_type doc_info;
          safe_doc_type_dir = map (\<lambda>c. if c = CHR '' '' then CHR ''_'' else c) doc_type_from_link;
          company_dir = path_join [env_raw_data_dir env, upper ticker, ''ir'', safe_doc_type_dir]
      in and_then (step (env_makedirs env)) (\<lambda>_.
         let ext = lower (splitext_ext (takeWhile (\<lambda>c. c \<noteq> CHR ''?'') url));
             file_extension = (if ext = [] \<or> length ext > 5 then ''.html'' else ext);
             url_hash = env_md5 env url;
             filename_base = env_today env @ ''_'' @ url_hash;
             filename = filename_base @ file_extension;
             filepath = path_join [company_dir, filename]
         in if env_file_exists env \<and> env_meta_exists env
            then and_then (env_read_meta env) (\<lambda>existing_metadata.
                   Inr \<lparr>res_success = True, res_status = Some ''skipped_exists'',
                        res_metadata = Some existing_metadata, res_filepath = Some filepath,
                        res_error = None, res_url = None\<rparr>)
            else Inr (catch_all url
                        (fetch_and_persist_ir env doc_info company_dir filename_base file_extension))))"

text \<open>
  Lines 138 to 165 of \<^verbatim>\<open>download_filing_document\<close>, the body of its \<^verbatim>\<open>try\<close>.
\<close>

definition fetch_and_persist_sec ::
  "io_env \<Rightarrow> string \<Rightarrow> string \<Rightarrow> string \<Rightarrow> string \<Rightarrow> string \<Rightarrow> string \<Rightarrow> string
     \<Rightarrow> exn + outcome" where
  "fetch_and_persist_sec env ticker cik_str accession_number document_filename form_type doc_url filepath =
     and_then (env_http_get env) (\<lambda>response.
     and_then (step (env_write_file env)) (\<lambda>_.
     and_then (env_hash_file env) (\<lambda>content_hash.
       let metadata =
             [(''url'', PStr doc_url),
              (''ticker'', PStr ticker),
              (''cik'', PStr cik_str),
              (''accession_number'', PStr accession_number),
              (''document_filename'', PStr document_filename),
              (''form_type'', PStr form_type),
              (''downloaded_at'', PStr (env_now env)),
              (''content_hash_sha256'', PStr content_hash),
              (''filepath_relative'', PStr (env_relpath env filepath))]
       in and_then (step (env_write_meta env)) (\<lambda>_.
            Inr \<lparr>res_success = True, res_status = Some ''downloaded'',
                 res_metadata = Some metadata, res_filepath = Some filepath,
                 res_error = None, res_url = None\<rparr>))))"

text \<open>
  \<^verbatim>\<open>SECFetcher.download_filing_document\<close>, with the same two steps before the
  \<^verbatim>\<open>try\<close>: \<^verbatim>\<open>os.makedirs\<close> (line 118) and the read of an existing sidecar (lines 127
  and 128).
\<close>

definition download_filing_document ::
  "company_row list \<Rightarrow> io_env \<Rightarrow> string \<Rightarrow> string \<Rightarrow> string \<Rightarrow> string \<Rightarrow> exn + outcome" where
  "download_filing_document df env ticker accession_number document_filename form_type =
     (case get_company_cik df ticker of
        None \<Rightarrow>
          Inr \<lparr>res_success = False, res_status = None, res_metadata = None, res_filepath = None,
               res_error = Some (''CIK not found for ticker '' @ ticker), res_url = None\<rparr>
      | Some cik_str \<Rightarrow>
          if cik_str = []
          then Inr \<lparr>res_success = False, res_status = None, res_metadata = None,
                    res_filepath = None,
                    res_error = Some (''CIK not found for ticker '' @ ticker), res_url = None\<rparr>
          else
            (let cik_for_archive = dropWhile (\<lambda>c. c = CHR ''0'') cik_str;
                 accession_number_clean = filter (\<lambda>c. c \<noteq> CHR ''-'') accession_number;
                 doc_url = ''https://www.sec.gov/Archives/edgar/data/'' @ cik_for_archive @ ''/''
                             @ accession_number_clean @ ''/'' @ document_filename;
                 safe_form_type = map (\<lambda>c. if c = CHR ''/'' then CHR ''_'' else c) form_type;
                 filing_dir = path_join [env_raw_data_dir env, upper ticker, ''sec'', safe_form_type,
                                         accession_number_clean]
             in and_then (step (env_makedirs env)) (\<lambda>_.
                let filepath = path_join [filing_dir, document_filename]
                in if env_file_exists env \<and> env_meta_exists env
                   then and_then (env_read_meta env) (\<lambda>existing_metadata.
                          Inr \<lparr>res_success = True, res_status = Some ''skipped_exists'',
                               res_metadata = Some existing_metadata,
                               res_filepath = Some filepath, res_error = None, res_url = None\<rparr>)
                   else Inr (catch_all doc_url
                               (fetch_and_persist_sec env ticker cik_str accession_number
                                  document_filename form_type doc_url filepath)))))"

text \<open>
  \<^verbatim>\<open>IRScraper.process_company\<close>, lines 281 to 300, over the links that
  \<^verbatim>\<open>grab_ir_links\<close> returned, each with the environment its download meets.
\<close>

definition skipped_link :: "link \<Rightarrow> bool" where
  "skipped_link link_info =
     (l_type link_info = ''SEC Filings Page'' \<and> \<not> contains ''sec.gov'' (l_url link_info))"

fun process_links :: "string \<Rightarrow> (link \<times> io_env) list \<Rightarrow> outcome list \<Rightarrow> exn + outcome list" where
  "process_links ticker [] download_results = Inr download_results"
| "process_links ticker ((link_info, env) # rest) download_results =
     (if skipped_link link_info then process_links ticker rest download_results
      else (case download_document env ticker link_info of
              Inl e \<Rightarrow> Inl e
            | Inr result \<Rightarrow> process_links ticker rest (download_results @ [result])))"

definition process_company :: "string \<Rightarrow> (link \<times> io_env) list \<Rightarrow> exn + outcome list" where
  "process_company ticker ir_links = (if ir_links = [] then Inr [] else process_links ticker ir_links [])"

text \<open>
  The steps before the \<^verbatim>\<open>try\<close> go through: the directory is created and an existing
  sidecar, if there is one, is read and decoded.
\<close>

definition prepared :: "io_env \<Rightarrow> bool" where
  "prepared env =
     (env_makedirs env = None
      \<and> (if env_file_exists env \<and> env_meta_exists env then \<not> isl (env_read_meta env) else True))"

text \<open>A step of the \<^verbatim>\<open>try\<close> raises.\<close>

definition attempt_raises :: "io_env \<Rightarrow> bool" where
  "attempt_raises env =
     (isl (env_http_get env) \<or> env_write_file env \<noteq> None \<or> isl (env_hash_file env)
      \<or> env_write_meta env \<noteq> None)"

text \<open>What a returned outcome says, by the state of the disk and of the attempt.\<close>

definition outcome_fits :: "io_env \<Rightarrow> outcome \<Rightarrow> bool" where
  "outcome_fits env out =
     (if env_file_exists env \<and> env_meta_exists env
      then res_success out \<and> res_status out = Some ''skipped_exists''
      else if attempt_raises env
      then \<not> res_success out \<and> res_metadata out = None
           \<and> (res_status out = Some ''failed_download''
               \<or> res_status out = Some ''failed_unexpected'')
      else res_success out \<and> res_status out = Some ''downloaded'')"

text \<open>Sample links and environments for the concrete instances below.\<close>

definition fresh_env :: io_env where
  "fresh_env =
     \<lparr>env_raw_data_dir = ''/srv/app/data/raw'',
      env_relpath = drop (length ''/srv/app/''),
      env_today = ''20240501'',
      env_now = ''2024-05-01T02:00:00'',
      env_md5 = (\<lambda>url. ''0f343b0931126a20f133d67c2b018a3b''),
      env_makedirs = None,
      env_file_exists = False,
      env_meta_exists = False,
      env_read_meta = Inl (Exn OSError ''No such file or directory''),
      env_http_get = Inr \<lparr>resp_content_type = Some ''application/pdf''\<rparr>,
      env_write_file = None,
      env_hash_file = Inr ''9f86d081884c7d65'',
      env_write_meta = None\<rparr>"

definition timeout_env :: io_env where
  "timeout_env = fresh_env\<lparr>env_http_get := Inl (Exn RequestException ''Read timed out'')\<rparr>"

definition unreadable_sidecar_env :: io_env where
  "unreadable_sidecar_env =
     fresh_env\<lparr>env_file_exists := True, env_meta_exists := True,
               env_read_meta := Inl (Exn OSError ''Permission denied'')\<rparr>"

definition annual_link :: link where
  "annual_link =
     \<lparr>l_url = ''https://example.com/10k.pdf'', l_text = ''Annual Report'',
      l_type = ''10-K'', l_source_page = ''https://example.com/investors''\<rparr>"

definition slides_link :: link where
  "slides_link =
     \<lparr>l_url = ''https://example.com/q3-slides.pdf'', l_text = ''Q3 slide deck'',
      l_type = ''Presentation'', l_source_page = ''https://example.com/investors''\<rparr>"

definition readonly_env :: io_env where
  "readonly_env = fresh_env\<lparr>env_makedirs := Some (Exn OSError ''Read-only file system'')\<rparr>"

text \<open>
  The environment of a second fetch of the same link on the same day: the artifact is
  on disk and its sidecar holds the metadata that the first download wrote.
\<close>

definition on_disk_env :: io_env where
  "on_disk_env =
     fresh_env\<lparr>env_file_exists := True, env_meta_exists := True,
               env_read_meta :=
                 and_then (download_document fresh_env ''aapl'' annual_link) (\<lambda>first.
                   case res_metadata first of
                     None \<Rightarrow> Inl (Exn OSError ''No such file or directory'')
                   | Some m \<Rightarrow> Inr m)\<rparr>"

section \<open>Properties of the store\<close>

lemma scan_existing_iff:
  "scan_existing k docs \<longleftrightarrow> (\<exists>e \<in> set docs. doc_key_of e = k)"
  by (induction docs) (auto simp: Let_def)

lemma is_duplicate_iff:
  "is_duplicate m docs \<longleftrightarrow> truthy (doc_key_of m) \<and> (\<exists>e \<in> set docs. doc_key_of e = doc_key_of m)"
  by (simp add: is_duplicate_def Let_def scan_existing_iff)

lemma add_document_metadata_valid:
  assumes "source_type = ''ir'' \<or> source_type = ''sec''"
      and "bucket_ready s ticker source_type"
  shows "\<exists>s'. add_document_metadata ticker source_type m s = Inr s'
            \<and> bucket_ready s' ticker source_type
            \<and> doc_list s' (upper ticker) source_type =
                (if is_duplicate m (doc_list s (upper ticker) source_type)
                 then doc_list s (upper ticker) source_type
                 else doc_list s (upper ticker) source_type @ [m])
            \<and> (is_duplicate m (doc_list s (upper ticker) source_type)
                 \<and> document_metadata_store s (upper ticker) \<noteq> None \<longrightarrow> s' = s)"
proof (cases "document_metadata_store s (upper ticker)")
  case None
  have nd: "\<not> is_duplicate m []"
    by (simp add: is_duplicate_def Let_def)
  from None assms(1) nd show ?thesis
    by (auto simp: add_document_metadata_def bucket_ready_def doc_list_def fresh_bucket_def)
next
  case (Some b)
  with assms(2) obtain docs where docs: "b source_type = Some docs"
    by (auto simp: bucket_ready_def)
  from Some docs assms(1) show ?thesis
    by (auto simp: add_document_metadata_def bucket_ready_def doc_list_def)
qed

text \<open>
  The call raises exactly when the source type is valid and the ticker's bucket lacks
  it; nothing has been changed by then.
\<close>

lemma add_document_metadata_key_error:
  "(\<exists>e. add_document_metadata ticker source_type m s = Inl e)
     \<longleftrightarrow> (source_type = ''ir'' \<or> source_type = ''sec'') \<and> \<not> bucket_ready s ticker source_type"
  by (auto simp: add_document_metadata_def bucket_ready_def fresh_bucket_def Let_def
           split: option.splits)

lemma doc_list_nonempty_bucket:
  "doc_list s k c \<noteq> [] \<Longrightarrow> document_metadata_store s k \<noteq> None"
  by (auto simp: doc_list_def split: option.splits)

lemma store_results_exact:
  "store_results ticker source_type results (s, n)
     = add_each ticker source_type (map res_metadata (filter downloaded results)) (s, n)"
  by (induction results arbitrary: s n) (auto simp: downloaded_def split: option.splits sum.splits)

lemma add_each_calls:
  "add_each ticker source_type ms (s, n) = Inr (s', n') \<Longrightarrow> n' = n + length ms"
proof (induction ms arbitrary: s n)
  case Nil
  then show ?case
    by simp
next
  case (Cons m ms)
  show ?case
  proof (cases m)
    case None
    with Cons.prems show ?thesis
      by simp
  next
    case (Some a)
    with Cons.prems obtain s1 where "add_each ticker source_type ms (s1, n + 1) = Inr (s', n')"
      by (auto split: sum.splits)
    from Cons.IH [OF this] show ?thesis
      by simp
  qed
qed

text \<open>
  Claim C1, as stated: every outcome, an \<^verbatim>\<open>AlreadyPresent\<close> one included, is handed to
  \<^verbatim>\<open>add_document\<close>. The callers do otherwise. With an empty store and the artifact
  already on disk, the outcome \<^verbatim>\<open>skipped_exists\<close> is not recorded and no call is made,
  where the stated behaviour records it with one call; and after a fresh download
  followed by an \<^verbatim>\<open>AlreadyPresent\<close> outcome one call has been made, not two.
\<close>

theorem already_present_not_passed_counterexample:
  "observed ''AAPL'' ''ir''
     (collect_ir_for_company ''AAPL'' [already_present_outcome example_metadata] initialize_empty_store)
     = Inr ([], 0)
   \<and> observed ''AAPL'' ''ir''
     (funnel_all ''AAPL'' ''ir'' [already_present_outcome example_metadata] (initialize_empty_store, 0))
     = Inr ([example_metadata], 1)
   \<and> observed ''AAPL'' ''sec''
     (collect_sec_route ''AAPL''
        [stored_outcome example_metadata, already_present_outcome example_metadata] initialize_empty_store)
     = Inr ([example_metadata], 1)
   \<and> observed ''AAPL'' ''sec''
     (funnel_all ''AAPL'' ''sec''
        [stored_outcome example_metadata, already_present_outcome example_metadata] (initialize_empty_store, 0))
     = Inr ([example_metadata], 2)"
  by code_simp

text \<open>
  Claim C1, amended: the callers hand an outcome's metadata to \<^verbatim>\<open>add_document\<close>
  exactly when the outcome is a successful download (status \<^verbatim>\<open>downloaded\<close>): a run
  over any list of outcomes is the run of \<^verbatim>\<open>add_document\<close> over the metadata of its
  downloaded outcomes, all of them, in order, and over nothing else, and the counter is
  their number. After a fresh download followed by an \<^verbatim>\<open>AlreadyPresent\<close> outcome, one
  call has been made, and a store that held at most one entry with the document's dedup
  key holds exactly one entry with it.
\<close>

theorem store_results_downloaded_only:
  assumes cat: "source_type = ''ir'' \<or> source_type = ''sec''"
      and ready: "bucket_ready s ticker source_type"
      and key: "truthy (doc_key_of m)"
      and inv: "length (filter (\<lambda>e. doc_key_of e = doc_key_of m)
                         (get_document_metadata s ticker source_type)) \<le> 1"
      and first: "res_success r1" "res_status r1 = Some ''downloaded''" "res_metadata r1 = Some m"
      and second: "res_status r2 = Some ''skipped_exists''"
  shows "(\<forall>results st n.
            store_results ticker source_type results (st, n)
              = add_each ticker source_type
                  (map res_metadata (filter downloaded results)) (st, n))
         \<and> (\<forall>results st n st' n'.
               store_results ticker source_type results (st, n) = Inr (st', n')
               \<longrightarrow> n' = n + length (filter downloaded results))
         \<and> (\<exists>s'. store_results ticker source_type [r1, r2] (s, 0) = Inr (s', 1)
               \<and> get_document_metadata s' ticker source_type
                   = (if \<exists>e \<in> set (get_document_metadata s ticker source_type).
                           doc_key_of e = doc_key_of m
                      then get_document_metadata s ticker source_type
                      else get_document_metadata s ticker source_type @ [m])
               \<and> length (filter (\<lambda>e. doc_key_of e = doc_key_of m)
                           (get_document_metadata s' ticker source_type)) = 1)"
proof -
  let ?docs = "doc_list s (upper ticker) source_type"
  let ?same = "\<lambda>e. doc_key_of e = doc_key_of m"
  from add_document_metadata_valid [OF cat ready, of m]
  obtain s' where s': "add_document_metadata ticker source_type m s = Inr s'"
    and docs: "doc_list s' (upper ticker) source_type =
                 (if is_duplicate m ?docs then ?docs else ?docs @ [m])"
    by blast
  have dup: "is_duplicate m ?docs \<longleftrightarrow> (\<exists>e \<in> set ?docs. doc_key_of e = doc_key_of m)"
    using key by (simp add: is_duplicate_iff)
  have count: "length (filter ?same (doc_list s' (upper ticker) source_type)) = 1"
  proof (cases "is_duplicate m ?docs")
    case True
    with dup have "filter ?same ?docs \<noteq> []"
      by (simp add: filter_empty_conv)
    then have "length (filter ?same ?docs) \<ge> 1"
      by (cases "filter ?same ?docs") simp_all
    with inv True docs show ?thesis
      by (simp add: get_document_metadata_def)
  next
    case False
    with dup have "filter ?same ?docs = []"
      by (simp add: filter_empty_conv)
    with False docs show ?thesis
      by simp
  qed
  have run: "store_results ticker source_type [r1, r2] (s, 0) = Inr (s', 1)"
    using first second s' by simp
  have calls: "n' = n + length (filter downloaded results)"
    if "store_results ticker source_type results (st, n) = Inr (st', n')"
    for results st n st' n'
    using that add_each_calls [of ticker source_type "map res_metadata (filter downloaded results)"
        st n st' n']
    by (simp add: store_results_exact)
  have scenario: "\<exists>s'. store_results ticker source_type [r1, r2] (s, 0) = Inr (s', 1)
               \<and> get_document_metadata s' ticker source_type
                   = (if \<exists>e \<in> set (get_document_metadata s ticker source_type).
                           doc_key_of e = doc_key_of m
                      then get_document_metadata s ticker source_type
                      else get_document_metadata s ticker source_type @ [m])
               \<and> length (filter (\<lambda>e. doc_key_of e = doc_key_of m)
                           (get_document_metadata s' ticker source_type)) = 1"
    using run docs dup count by (auto simp: get_document_metadata_def)
  from store_results_exact calls scenario show ?thesis
    by blast
qed

theorem store_results_downloaded_only_witness:
  "(''ir'' = ''ir'' \<or> ''ir'' = ''sec'')
   \<and> bucket_ready initialize_empty_store ''AAPL'' ''ir''
   \<and> truthy (doc_key_of example_metadata)
   \<and> get_document_metadata initialize_empty_store ''AAPL'' ''ir'' = []
   \<and> res_success (stored_outcome example_metadata)
   \<and> res_status (stored_outcome example_metadata) = Some ''downloaded''
   \<and> res_metadata (stored_outcome example_metadata) = Some example_metadata
   \<and> res_status (already_present_outcome example_metadata) = Some ''skipped_exists''
   \<and> store_results ''AAPL'' ''ir''
        [stored_outcome example_metadata, already_present_outcome example_metadata,
         stored_outcome mirror_metadata, stored_outcome url_only_metadata]
        (initialize_empty_store, 0)
       = add_each ''AAPL'' ''ir''
           [Some example_metadata, Some mirror_metadata, Some url_only_metadata]
           (initialize_empty_store, 0)
   \<and> (\<exists>s'. store_results ''AAPL'' ''ir''
               [stored_outcome example_metadata, already_present_outcome example_metadata]
               (initialize_empty_store, 0) = Inr (s', 1)
          \<and> get_document_metadata s' ''AAPL'' ''ir'' = [example_metadata]
          \<and> length (filter (\<lambda>e. doc_key_of e = doc_key_of example_metadata)
                       (get_document_metadata s' ''AAPL'' ''ir'')) = 1)"
proof -
  have r: "bucket_ready initialize_empty_store ''AAPL'' ''ir''"
    by (simp add: bucket_ready_def initialize_empty_store_def)
  have k: "truthy (doc_key_of example_metadata)"
    by (simp add: doc_key_of_def py_or_def dict_get_def example_metadata_def)
  have d: "get_document_metadata initialize_empty_store ''AAPL'' ''ir'' = []"
    by (simp add: get_document_metadata_def doc_list_def initialize_empty_store_def)
  then have n: "length (filter (\<lambda>e. doc_key_of e = doc_key_of example_metadata)
                  (get_document_metadata initialize_empty_store ''AAPL'' ''ir'')) \<le> 1"
    by simp
  have f: "res_success (stored_outcome example_metadata)"
      "res_status (stored_outcome example_metadata) = Some ''downloaded''"
      "res_metadata (stored_outcome example_metadata) = Some example_metadata"
    by (simp_all add: stored_outcome_def)
  have a: "res_status (already_present_outcome example_metadata) = Some ''skipped_exists''"
    by (simp add: already_present_outcome_def)
  note inst = store_results_downloaded_only [OF _ r k n f a]
  have passed: "map res_metadata (filter downloaded
        [stored_outcome example_metadata, already_present_outcome example_metadata,
         stored_outcome mirror_metadata, stored_outcome url_only_metadata])
       = [Some example_metadata, Some mirror_metadata, Some url_only_metadata]"
    by (simp add: downloaded_def stored_outcome_def already_present_outcome_def)
  from inst have exact: "store_results ''AAPL'' ''ir''
        [stored_outcome example_metadata, already_present_outcome example_metadata,
         stored_outcome mirror_metadata, stored_outcome url_only_metadata]
        (initialize_empty_store, 0)
       = add_each ''AAPL'' ''ir''
           [Some example_metadata, Some mirror_metadata, Some url_only_metadata]
           (initialize_empty_store, 0)"
    unfolding passed [symmetric] by blast
  from inst have "\<exists>s'. store_results ''AAPL'' ''ir''
               [stored_outcome example_metadata, already_present_outcome example_metadata]
               (initialize_empty_store, 0) = Inr (s', 1)
          \<and> get_document_metadata s' ''AAPL'' ''ir'' = [example_metadata]
          \<and> length (filter (\<lambda>e. doc_key_of e = doc_key_of example_metadata)
                       (get_document_metadata s' ''AAPL'' ''ir'')) = 1"
    by (simp add: d)
  with r k d f a exact show ?thesis
    by simp
qed

text \<open>
  Claim C4: for a source type \<^verbatim>\<open>ir\<close> or \<^verbatim>\<open>sec\<close>, a second \<^verbatim>\<open>add_document\<close> with
  metadata of the same (non-empty) dedup key is dropped: the store, and so the document
  count of the pair, is what the first call left. Both calls return (the bucket of the
  ticker, if it exists, holds the source type).
\<close>

theorem add_document_idempotent:
  assumes cat: "source_type = ''ir'' \<or> source_type = ''sec''"
      and ready: "bucket_ready s ticker source_type"
      and key: "truthy (doc_key_of m1)"
      and same: "doc_key_of m2 = doc_key_of m1"
  shows "\<exists>s1 s2. add_document_metadata ticker source_type m1 s = Inr s1
           \<and> add_document_metadata ticker source_type m2 s1 = Inr s2
           \<and> length (get_document_metadata s2 ticker source_type)
               = length (get_document_metadata s1 ticker source_type)
           \<and> s2 = s1"
proof -
  let ?docs = "doc_list s (upper ticker) source_type"
  from add_document_metadata_valid [OF cat ready, of m1]
  obtain s1 where s1: "add_document_metadata ticker source_type m1 s = Inr s1"
    and ready1: "bucket_ready s1 ticker source_type"
    and docs1: "doc_list s1 (upper ticker) source_type =
                  (if is_duplicate m1 ?docs then ?docs else ?docs @ [m1])"
    by blast
  have present: "\<exists>e \<in> set (doc_list s1 (upper ticker) source_type). doc_key_of e = doc_key_of m1"
    using docs1 by (auto simp: is_duplicate_iff)
  then have dup: "is_duplicate m2 (doc_list s1 (upper ticker) source_type)"
    using key same by (simp add: is_duplicate_iff)
  from present have "doc_list s1 (upper ticker) source_type \<noteq> []"
    by auto
  then have bucket: "document_metadata_store s1 (upper ticker) \<noteq> None"
    by (rule doc_list_nonempty_bucket)
  from add_document_metadata_valid [OF cat ready1, of m2] dup bucket
  have "add_document_metadata ticker source_type m2 s1 = Inr s1"
    by auto
  with s1 show ?thesis
    by simp
qed

theorem add_document_idempotent_witness:
  "(''ir'' = ''ir'' \<or> ''ir'' = ''sec'')
   \<and> bucket_ready initialize_empty_store ''aapl'' ''ir''
   \<and> truthy (doc_key_of example_metadata)
   \<and> doc_key_of mirror_metadata = doc_key_of example_metadata
   \<and> (\<exists>s1 s2. add_document_metadata ''aapl'' ''ir'' example_metadata initialize_empty_store = Inr s1
           \<and> add_document_metadata ''aapl'' ''ir'' mirror_metadata s1 = Inr s2
           \<and> length (get_document_metadata s2 ''aapl'' ''ir'')
               = length (get_document_metadata s1 ''aapl'' ''ir'')
           \<and> s2 = s1)"
proof -
  have r: "bucket_ready initialize_empty_store ''aapl'' ''ir''"
    by (simp add: bucket_ready_def initialize_empty_store_def)
  have k: "truthy (doc_key_of example_metadata)"
    by (simp add: doc_key_of_def py_or_def dict_get_def example_metadata_def)
  have e: "doc_key_of mirror_metadata = doc_key_of example_metadata"
    by (simp add: doc_key_of_def py_or_def dict_get_def example_metadata_def mirror_metadata_def)
  show ?thesis
    using add_document_idempotent [OF _ r k e] r k e by simp
qed

text \<open>
  Claim C5: the dedup key is the fingerprint when present, else the URL. New metadata
  with a fingerprint is dropped as soon as an entry of the pair carries the same
  fingerprint, whatever the two URLs are; when neither the new metadata nor any entry
  of the pair has a fingerprint, the new metadata (with a URL) is dropped exactly when
  an entry has the same URL, and appended otherwise.
\<close>

theorem dedup_key_precedence:
  assumes cat: "source_type = ''ir'' \<or> source_type = ''sec''"
      and ready: "bucket_ready s ticker source_type"
  shows "(truthy (dict_get new ''content_hash_sha256'')
          \<and> (\<exists>old \<in> set (get_document_metadata s ticker source_type).
                dict_get old ''content_hash_sha256'' = dict_get new ''content_hash_sha256'')
          \<longrightarrow> add_document_metadata ticker source_type new s = Inr s)
       \<and> (\<not> truthy (dict_get new ''content_hash_sha256'')
          \<and> (\<forall>old \<in> set (get_document_metadata s ticker source_type).
                \<not> truthy (dict_get old ''content_hash_sha256''))
          \<and> truthy (dict_get new ''url'')
          \<longrightarrow> (\<exists>s'. add_document_metadata ticker source_type new s = Inr s'
                \<and> get_document_metadata s' ticker source_type =
                    (if \<exists>old \<in> set (get_document_metadata s ticker source_type).
                          dict_get old ''url'' = dict_get new ''url''
                     then get_document_metadata s ticker source_type
                     else get_document_metadata s ticker source_type @ [new])))"
proof (intro conjI impI)
  let ?docs = "doc_list s (upper ticker) source_type"
  assume h: "truthy (dict_get new ''content_hash_sha256'')
          \<and> (\<exists>old \<in> set (get_document_metadata s ticker source_type).
                dict_get old ''content_hash_sha256'' = dict_get new ''content_hash_sha256'')"
  then have dup: "is_duplicate new ?docs"
    by (auto simp: is_duplicate_iff doc_key_of_def py_or_def get_document_metadata_def)
  from h have "?docs \<noteq> []"
    by (auto simp: get_document_metadata_def)
  then have "document_metadata_store s (upper ticker) \<noteq> None"
    by (auto simp: doc_list_def split: option.splits)
  with add_document_metadata_valid [OF cat ready, of new] dup
  show "add_document_metadata ticker source_type new s = Inr s"
    by auto
next
  let ?docs = "doc_list s (upper ticker) source_type"
  assume h: "\<not> truthy (dict_get new ''content_hash_sha256'')
          \<and> (\<forall>old \<in> set (get_document_metadata s ticker source_type).
                \<not> truthy (dict_get old ''content_hash_sha256''))
          \<and> truthy (dict_get new ''url'')"
  then have "is_duplicate new ?docs \<longleftrightarrow> (\<exists>old \<in> set ?docs. dict_get old ''url'' = dict_get new ''url'')"
    by (auto simp: is_duplicate_iff doc_key_of_def py_or_def get_document_metadata_def)
  with add_document_metadata_valid [OF cat ready, of new]
  show "\<exists>s'. add_document_metadata ticker source_type new s = Inr s'
                \<and> get_document_metadata s' ticker source_type =
                    (if \<exists>old \<in> set (get_document_metadata s ticker source_type).
                          dict_get old ''url'' = dict_get new ''url''
                     then get_document_metadata s ticker source_type
                     else get_document_metadata s ticker source_type @ [new])"
    by (auto simp: get_document_metadata_def)
qed

theorem dedup_key_precedence_witness:
  "(''ir'' = ''ir'' \<or> ''ir'' = ''sec'')
   \<and> bucket_ready (store_with [example_metadata]) ''aapl'' ''ir''
   \<and> truthy (dict_get mirror_metadata ''content_hash_sha256'')
   \<and> (\<exists>old \<in> set (get_document_metadata (store_with [example_metadata]) ''aapl'' ''ir'').
         dict_get old ''content_hash_sha256'' = dict_get mirror_metadata ''content_hash_sha256'')
   \<and> dict_get example_metadata ''url'' \<noteq> dict_get mirror_metadata ''url''
   \<and> add_document_metadata ''aapl'' ''ir'' mirror_metadata (store_with [example_metadata])
        = Inr (store_with [example_metadata])
   \<and> bucket_ready (store_with [url_only_metadata]) ''aapl'' ''ir''
   \<and> \<not> truthy (dict_get url_only_again ''content_hash_sha256'')
   \<and> get_document_metadata (store_with [url_only_metadata]) ''aapl'' ''ir'' = [url_only_metadata]
   \<and> \<not> truthy (dict_get url_only_metadata ''content_hash_sha256'')
   \<and> truthy (dict_get url_only_again ''url'')
   \<and> (\<exists>s'. add_document_metadata ''aapl'' ''ir'' url_only_again (store_with [url_only_metadata]) = Inr s'
          \<and> get_document_metadata s' ''aapl'' ''ir'' = [url_only_metadata])"
proof -
  have docs: "get_document_metadata (store_with ds) ''aapl'' ''ir'' = ds" for ds
  proof -
    have "upper ''aapl'' = ''AAPL''"
      by code_simp
    then show ?thesis
      by (simp add: get_document_metadata_def doc_list_def store_with_def)
  qed
  have r: "bucket_ready (store_with ds) ''aapl'' ''ir''" for ds
    by (simp add: bucket_ready_def store_with_def split: option.splits)
  have h1: "truthy (dict_get mirror_metadata ''content_hash_sha256'')
     \<and> (\<exists>old \<in> set (get_document_metadata (store_with [example_metadata]) ''aapl'' ''ir'').
         dict_get old ''content_hash_sha256'' = dict_get mirror_metadata ''content_hash_sha256'')"
    by (simp add: docs dict_get_def mirror_metadata_def example_metadata_def)
  have u: "dict_get example_metadata ''url'' \<noteq> dict_get mirror_metadata ''url''"
    by (simp add: dict_get_def mirror_metadata_def example_metadata_def)
  have h2: "\<not> truthy (dict_get url_only_again ''content_hash_sha256'')
     \<and> (\<forall>old \<in> set (get_document_metadata (store_with [url_only_metadata]) ''aapl'' ''ir'').
         \<not> truthy (dict_get old ''content_hash_sha256''))
     \<and> truthy (dict_get url_only_again ''url'')"
    by (simp add: docs dict_get_def url_only_again_def url_only_metadata_def)
  have same: "dict_get url_only_metadata ''url'' = dict_get url_only_again ''url''"
    by (simp add: dict_get_def url_only_again_def url_only_metadata_def)
  from dedup_key_precedence [OF _ r [of "[example_metadata]"], of mirror_metadata] h1
  have c1: "add_document_metadata ''aapl'' ''ir'' mirror_metadata (store_with [example_metadata])
        = Inr (store_with [example_metadata])"
    by blast
  from dedup_key_precedence [OF _ r [of "[url_only_metadata]"], of url_only_again] h2
  have c2: "\<exists>s'. add_document_metadata ''aapl'' ''ir'' url_only_again (store_with [url_only_metadata]) = Inr s'
          \<and> get_document_metadata s' ''aapl'' ''ir'' = [url_only_metadata]"
    by (simp add: docs same)
  have h3: "\<not> truthy (dict_get url_only_metadata ''content_hash_sha256'')"
    by (simp add: dict_get_def url_only_metadata_def)
  from r h1 u c1 h2 h3 c2 docs show ?thesis
    by simp
qed

text \<open>
  Claim C9: with a source type other than \<^verbatim>\<open>ir\<close> and \<^verbatim>\<open>sec\<close> the call returns
  without appending: the document list of every (ticker, category) pair is the same
  after the call as before it, although a bucket may have been created for the ticker.
\<close>

theorem invalid_source_type_appends_nothing:
  assumes "source_type \<noteq> ''ir''" and "source_type \<noteq> ''sec''"
  shows "\<exists>s'. add_document_metadata ticker source_type m s = Inr s'
           \<and> (\<forall>key category. doc_list s' key category = doc_list s key category)
           \<and> (\<forall>t category. get_document_metadata s' t category = get_document_metadata s t category)"
proof (cases "document_metadata_store s (upper ticker)")
  case None
  let ?s' = "s\<lparr>document_metadata_store := (document_metadata_store s)(upper ticker \<mapsto> fresh_bucket)\<rparr>"
  from None assms have res: "add_document_metadata ticker source_type m s = Inr ?s'"
    by (simp add: add_document_metadata_def)
  have same: "doc_list ?s' key category = doc_list s key category" for key category
    using None by (simp add: doc_list_def fresh_bucket_def)
  from res same show ?thesis
    by (simp add: get_document_metadata_def)
next
  case (Some b)
  with assms have "add_document_metadata ticker source_type m s = Inr s"
    by (simp add: add_document_metadata_def)
  then show ?thesis
    by simp
qed

theorem invalid_source_type_appends_nothing_witness:
  "''news'' \<noteq> ''ir'' \<and> ''news'' \<noteq> ''sec''
   \<and> (\<exists>s'. add_document_metadata ''cvs'' ''news'' example_metadata initialize_empty_store = Inr s'
           \<and> (\<forall>key category. doc_list s' key category = doc_list initialize_empty_store key category)
           \<and> (\<forall>t category. get_document_metadata s' t category
                 = get_document_metadata initialize_empty_store t category)
           \<and> document_metadata_store s' ''CVS'' = Some fresh_bucket)"
proof -
  have a: "''news'' \<noteq> ''ir''" and b: "''news'' \<noteq> ''sec''"
    by simp_all
  have u: "upper ''cvs'' = ''CVS''"
    by code_simp
  have c: "add_document_metadata ''cvs'' ''news'' example_metadata initialize_empty_store = Inr s'
           \<Longrightarrow> document_metadata_store s' ''CVS'' = Some fresh_bucket" for s'
    by (auto simp: add_document_metadata_def u initialize_empty_store_def)
  show ?thesis
    using invalid_source_type_appends_nothing [OF a b, where ticker = "''cvs''" and m = example_metadata and s = initialize_empty_store] a b c
    by blast
qed

text \<open>
  Claim C10: metadata with neither a fingerprint nor a URL has an empty dedup key, the
  duplicate scan is skipped, and every call appends: two successive calls with the same
  key-less metadata add two entries to the pair.
\<close>

theorem keyless_metadata_always_appended:
  assumes cat: "source_type = ''ir'' \<or> source_type = ''sec''"
      and ready: "bucket_ready s ticker source_type"
      and nokey: "\<not> truthy (dict_get m ''content_hash_sha256'')" "\<not> truthy (dict_get m ''url'')"
  shows "\<exists>s1 s2. add_document_metadata ticker source_type m s = Inr s1
           \<and> add_document_metadata ticker source_type m s1 = Inr s2
           \<and> get_document_metadata s2 ticker source_type
               = get_document_metadata s ticker source_type @ [m, m]
           \<and> length (get_document_metadata s2 ticker source_type)
               = length (get_document_metadata s ticker source_type) + 2"
proof -
  have nd: "\<not> is_duplicate m docs" for docs
    using nokey by (simp add: is_duplicate_iff doc_key_of_def py_or_def)
  from add_document_metadata_valid [OF cat ready, of m] nd
  obtain s1 where s1: "add_document_metadata ticker source_type m s = Inr s1"
    and ready1: "bucket_ready s1 ticker source_type"
    and docs1: "doc_list s1 (upper ticker) source_type = doc_list s (upper ticker) source_type @ [m]"
    by auto
  from add_document_metadata_valid [OF cat ready1, of m] nd
  obtain s2 where s2: "add_document_metadata ticker source_type m s1 = Inr s2"
    and docs2: "doc_list s2 (upper ticker) source_type = doc_list s1 (upper ticker) source_type @ [m]"
    by auto
  from s1 s2 docs1 docs2 show ?thesis
    by (simp add: get_document_metadata_def)
qed

theorem keyless_metadata_always_appended_witness:
  "(''sec'' = ''ir'' \<or> ''sec'' = ''sec'')
   \<and> bucket_ready initialize_empty_store ''wmt'' ''sec''
   \<and> \<not> truthy (dict_get keyless_metadata ''content_hash_sha256'')
   \<and> \<not> truthy (dict_get keyless_metadata ''url'')
   \<and> (\<exists>s1 s2. add_document_metadata ''wmt'' ''sec'' keyless_metadata initialize_empty_store = Inr s1
           \<and> add_document_metadata ''wmt'' ''sec'' keyless_metadata s1 = Inr s2
           \<and> get_document_metadata s2 ''wmt'' ''sec''
               = get_document_metadata initialize_empty_store ''wmt'' ''sec'' @ [keyless_metadata, keyless_metadata]
           \<and> length (get_document_metadata s2 ''wmt'' ''sec'')
               = length (get_document_metadata initialize_empty_store ''wmt'' ''sec'') + 2)"
proof -
  have r: "bucket_ready initialize_empty_store ''wmt'' ''sec''"
    by (simp add: bucket_ready_def initialize_empty_store_def)
  have h: "\<not> truthy (dict_get keyless_metadata ''content_hash_sha256'')"
    by (simp add: dict_get_def keyless_metadata_def)
  have u: "\<not> truthy (dict_get keyless_metadata ''url'')"
    by (simp add: dict_get_def keyless_metadata_def)
  show ?thesis
    using keyless_metadata_always_appended [OF _ r h u] r h u by simp
qed

section \<open>Properties of the filing resolver\<close>

lemma get_company_cik_absent:
  assumes "\<forall>row \<in> set df. upper (row_ticker row) \<noteq> upper ticker"
  shows "get_company_cik df ticker = None"
proof -
  from assms have "filter (\<lambda>row. upper (row_ticker row) = upper ticker) df = []"
    by (simp add: filter_empty_conv)
  then show ?thesis
    by (simp add: get_company_cik_def)
qed

lemma absent_ticker_no_request:
  assumes "\<forall>row \<in> set df. upper (row_ticker row) \<noteq> upper ticker"
  shows "get_recent_filings_metadata df net ticker form_types_arg count = (Inr [], [])"
  using get_company_cik_absent [OF assms]
  by (simp add: get_recent_filings_metadata_def get_company_submissions_def)

lemma length_zfill: "width \<le> length (zfill width s)"
  by (cases s) (auto simp: zfill_def)

text \<open>
  A ticker that has a row never resolves to \<^verbatim>\<open>None\<close>: whatever its \<^verbatim>\<open>cik\<close> cell
  holds, the result is a string of at least ten characters, which the callers' test
  \<^verbatim>\<open>if not cik_str\<close> lets through.
\<close>

lemma get_company_cik_present:
  assumes "row \<in> set df" and "upper (row_ticker row) = upper ticker"
  shows "\<exists>cik_str. get_company_cik df ticker = Some cik_str \<and> 10 \<le> length cik_str"
proof -
  from assms have "filter (\<lambda>row. upper (row_ticker row) = upper ticker) df \<noteq> []"
    by (auto simp: filter_empty_conv)
  then obtain r rs where "filter (\<lambda>row. upper (row_ticker row) = upper ticker) df = r # rs"
    by (cases "filter (\<lambda>row. upper (row_ticker row) = upper ticker) df") auto
  then show ?thesis
    by (simp add: get_company_cik_def length_zfill)
qed

text \<open>
  Claim C2, at the input where the code departs from it: the universe has a row for ZZZ
  with no identifier on record. \<^verbatim>\<open>get_company_cik\<close> renders the missing cell as text
  and pads it, so it returns an identifier, the submissions request is issued for it,
  and the filings of the answer are returned.
\<close>

theorem missing_identifier_is_requested:
  "get_company_cik zzz_universe ''ZZZ'' = Some ''0000000nan''
   \<and> snd (get_recent_filings_metadata zzz_universe ragged_network ''ZZZ'' None 10)
       = [''https://data.sec.gov/submissions/CIK0000000nan.json'']
   \<and> fst (get_recent_filings_metadata zzz_universe ragged_network ''ZZZ'' None 10)
       = Inr [descriptor ragged_recent 0]"
  by code_simp

lemma make_filing_info_present:
  assumes "recent ''accessionNumber'' \<noteq> None" "recent ''filingDate'' \<noteq> None" "recent ''primaryDocument'' \<noteq> None"
  shows "make_filing_info recent i (get_or recent ''form'' [] ! i) =
     (if i < length (get_or recent ''accessionNumber'' [])
               \<and> i < length (get_or recent ''filingDate'' [])
               \<and> i < length (get_or recent ''reportDate'' [PStr ''''])
               \<and> i < length (get_or recent ''primaryDocument'' [])
               \<and> i < length (get_or recent ''primaryDocDescription'' [PStr ''''])
               \<and> i < length (get_or recent ''size'' [PNone])
      then Inr (descriptor recent i)
      else Inl (Exn IndexError ''list index out of range''))"
  using assms
  by (auto simp: make_filing_info_def subscript_def index_def get_or_def descriptor_def)

lemma try_filing_present:
  assumes "recent ''form'' \<noteq> None"
    "recent ''accessionNumber'' \<noteq> None" "recent ''filingDate'' \<noteq> None" "recent ''primaryDocument'' \<noteq> None"
  shows "try_filing recent form_types i =
     (if index_ok recent form_types i
      then Inr (if wanted recent form_types i then Some (descriptor recent i) else None)
      else Inl (Exn IndexError ''list index out of range''))"
proof -
  from assms(1) obtain fs where fs: "recent ''form'' = Some fs"
    by auto
  then have g: "get_or recent ''form'' [] = fs"
    by (simp add: get_or_def)
  show ?thesis
  proof (cases "i < length fs")
    case False
    then show ?thesis
      by (simp add: try_filing_def subscript_def fs index_def index_ok_def g)
  next
    case True
    note inr = True
    show ?thesis
    proof (cases "wanted recent form_types i")
      case False
      with inr show ?thesis
        by (simp add: try_filing_def subscript_def fs index_def index_ok_def g wanted_def)
    next
      case True
      then have w: "fs ! i \<in> set (map PStr form_types)"
        by (simp add: wanted_def g)
      have m: "make_filing_info recent i (fs ! i) =
         (if index_ok recent form_types i then Inr (descriptor recent i)
          else Inl (Exn IndexError ''list index out of range''))"
        using make_filing_info_present [OF assms(2-4), of i] True inr
        by (simp add: g index_ok_def)
      have "try_filing recent form_types i =
              and_then (make_filing_info recent i (fs ! i)) (\<lambda>filing_info. Inr (Some filing_info))"
        using inr w by (simp add: try_filing_def subscript_def fs index_def del: set_map)
      with m True show ?thesis
        by simp
    qed
  qed
qed

lemma filings_loop_prefix:
  assumes "recent ''form'' \<noteq> None"
    "recent ''accessionNumber'' \<noteq> None" "recent ''filingDate'' \<noteq> None" "recent ''primaryDocument'' \<noteq> None"
    and "int (length acc) < max 1 count"
  shows "filings_loop recent form_types count indices acc =
           Inr (take (nat (max 1 count)) (acc @ filtered_prefix recent form_types indices))"
  using assms(5)
proof (induction indices arbitrary: acc)
  case Nil
  then show ?case
    by (simp add: filtered_prefix_def)
next
  case (Cons i rest)
  note tf = try_filing_present [OF assms(1-4), of form_types i]
  show ?case
  proof (cases "index_ok recent form_types i")
    case False
    with tf Cons.prems show ?thesis
      by (simp add: filtered_prefix_def)
  next
    case True
    note ok = True
    show ?thesis
    proof (cases "wanted recent form_types i")
      case False
      with ok tf Cons.IH [OF Cons.prems] show ?thesis
        by (simp add: filtered_prefix_def)
    next
      case True
      have fp: "filtered_prefix recent form_types (i # rest) =
                  descriptor recent i # filtered_prefix recent form_types rest"
        using ok True by (simp add: filtered_prefix_def)
      show ?thesis
      proof (cases "int (length (acc @ [descriptor recent i])) \<ge> count")
        case full: True
        with Cons.prems have "nat (max 1 count) = length acc + 1"
          by auto
        with full ok True tf fp show ?thesis
          by (simp add: Let_def)
      next
        case notfull: False
        then have "int (length (acc @ [descriptor recent i])) < max 1 count"
          by simp
        from Cons.IH [OF this] notfull ok True tf fp show ?thesis
          by (simp add: Let_def)
      qed
    qed
  qed
qed

text \<open>
  Claim C3: for a submissions payload whose parallel arrays are present with whatever
  lengths, \<^verbatim>\<open>get_recent_filings_metadata\<close> returns a list and raises nothing: the
  descriptors of the requested forms among the indices before the first one that is out
  of range of an array consumed there, cut at \<^verbatim>\<open>count\<close> entries (at one entry for a
  \<^verbatim>\<open>count\<close> below one, the bound being tested after the append).
\<close>

theorem recent_filings_truncated_prefix:
  assumes sub: "fst (get_company_submissions df net ticker)
                  = \<lparr>sd_error = None, sd_filings = Some filings\<rparr>"
      and rec: "filings ''recent'' = Some recent"
      and arrays: "recent ''form'' \<noteq> None" "recent ''filingDate'' \<noteq> None"
                  "recent ''primaryDocument'' \<noteq> None"
  shows "fst (get_recent_filings_metadata df net ticker form_types_arg count) =
           Inr (take (nat (max 1 count))
                  (filtered_prefix recent
                     (case form_types_arg of None \<Rightarrow> default_form_types | Some fts \<Rightarrow> fts)
                     [0..<length (get_or recent ''accessionNumber'' [])]))"
proof (cases "recent ''accessionNumber''")
  case None
  with sub rec show ?thesis
    by (cases "get_company_submissions df net ticker")
       (simp add: get_recent_filings_metadata_def get_or_def filtered_prefix_def)
next
  case (Some xs)
  then have acc: "recent ''accessionNumber'' \<noteq> None"
    by simp
  let ?fts = "case form_types_arg of None \<Rightarrow> default_form_types | Some fts \<Rightarrow> fts"
  have "int (length ([] :: filing_info list)) < max 1 count"
    by simp
  from filings_loop_prefix [OF arrays(1) acc arrays(2,3) this, of ?fts]
  have "filings_loop recent ?fts count [0..<length (get_or recent ''accessionNumber'' [])] [] =
          Inr (take (nat (max 1 count))
                 (filtered_prefix recent ?fts [0..<length (get_or recent ''accessionNumber'' [])]))"
    by simp
  with sub rec show ?thesis
    by (cases "get_company_submissions df net ticker")
       (simp add: get_recent_filings_metadata_def Let_def)
qed

theorem recent_filings_truncated_prefix_witness:
  "fst (get_company_submissions zzz_universe ragged_network ''wmt'')
     = \<lparr>sd_error = None, sd_filings = Some [''recent'' \<mapsto> ragged_recent]\<rparr>
   \<and> [''recent'' \<mapsto> ragged_recent] ''recent'' = Some ragged_recent
   \<and> ragged_recent ''form'' \<noteq> None \<and> ragged_recent ''filingDate'' \<noteq> None
   \<and> ragged_recent ''primaryDocument'' \<noteq> None
   \<and> length (get_or ragged_recent ''accessionNumber'' []) = 4
   \<and> length (get_or ragged_recent ''filingDate'' []) = 2
   \<and> fst (get_recent_filings_metadata zzz_universe ragged_network ''wmt'' None 10)
       = Inr (take (nat (max 1 10))
                (filtered_prefix ragged_recent default_form_types
                   [0..<length (get_or ragged_recent ''accessionNumber'' [])]))
   \<and> filtered_prefix ragged_recent default_form_types
        [0..<length (get_or ragged_recent ''accessionNumber'' [])]
       = [descriptor ragged_recent 0]"
proof -
  have cik: "get_company_cik zzz_universe ''wmt'' = Some ''0000104169''"
    by code_simp
  have sub: "fst (get_company_submissions zzz_universe ragged_network ''wmt'')
     = \<lparr>sd_error = None, sd_filings = Some [''recent'' \<mapsto> ragged_recent]\<rparr>"
    by (simp add: get_company_submissions_def cik make_request_def ragged_network_def)
  have rec: "[''recent'' \<mapsto> ragged_recent] ''recent'' = Some ragged_recent"
    by simp
  have arrays: "ragged_recent ''form'' \<noteq> None" "ragged_recent ''filingDate'' \<noteq> None"
      "ragged_recent ''primaryDocument'' \<noteq> None"
    by (simp_all add: ragged_recent_def)
  have lens: "length (get_or ragged_recent ''accessionNumber'' []) = 4"
      "length (get_or ragged_recent ''filingDate'' []) = 2"
    by (simp_all add: get_or_def ragged_recent_def)
  have val: "filtered_prefix ragged_recent default_form_types
        [0..<length (get_or ragged_recent ''accessionNumber'' [])] = [descriptor ragged_recent 0]"
    by code_simp
  from recent_filings_truncated_prefix [OF sub rec arrays, of None 10] sub rec arrays lens val
  show ?thesis
    by simp
qed

section \<open>Properties of link classification\<close>

lemma text_pass_range: "text_pass tbl t m = m \<or> text_pass tbl t m \<in> fst ` set tbl"
  by (induction tbl) force+

lemma href_pass_range: "href_pass tbl h m = m \<or> href_pass tbl h m \<in> fst ` set tbl"
  by (induction tbl) force+

lemma classify_total: "classify link_text href \<in> set document_type_tags"
proof -
  have t: "text_pass keywords_doc_type link_text ''Other'' \<in> set document_type_tags"
    using text_pass_range [of keywords_doc_type link_text "''Other''"]
    by (auto simp: keywords_doc_type_def document_type_tags_def)
  have h: "href_pass keywords_doc_type href ''Other'' \<in> set document_type_tags"
    using href_pass_range [of keywords_doc_type href "''Other''"]
    by (auto simp: keywords_doc_type_def document_type_tags_def)
  have g: "m \<in> set document_type_tags \<Longrightarrow> generic_pass link_text href m \<in> set document_type_tags" for m
    by (simp add: generic_pass_def document_type_tags_def)
  from t h g show ?thesis
    by (simp add: classify_def Let_def)
qed

text \<open>
  Scenario C: the link text \<^verbatim>\<open>Q3 Earnings Release.pdf\<close> with an href that matches no
  keyword group.
\<close>

lemma classify_earnings_release:
  "classify (lower (strip ''Q3 Earnings Release.pdf'')) ''/static-files/5f3a'' = ''Earnings Release''"
  by code_simp

text \<open>
  Claim C8: the tag of a link is a total function of its text and its href. Whatever
  page, base URL and links found so far, the loop appends, in the order of the anchors,
  one link for every anchor that is neither skipped nor classified as \<^verbatim>\<open>Other\<close>, and
  the tag of that link is \<open>classify\<close> of the anchor's text (stripped, lower-cased) and
  href alone; \<open>classify\<close> always answers one of the nine tags.
\<close>

theorem classification_depends_on_text_and_href:
  "links_loop urljoin actual_page_url anchors links_found =
     links_found @
       map (\<lambda>a. \<lparr>l_url = urljoin actual_page_url (a_href a), l_text = strip (a_text a),
                 l_type = classify (lower (strip (a_text a))) (a_href a),
                 l_source_page = actual_page_url\<rparr>)
         (filter (\<lambda>a. (if skipped_href (a_href a) then False
                       else classify (lower (strip (a_text a))) (a_href a) \<noteq> ''Other''))
            anchors)
   \<and> classify link_text href \<in> set document_type_tags"
proof
  show "links_loop urljoin actual_page_url anchors links_found =
     links_found @
       map (\<lambda>a. \<lparr>l_url = urljoin actual_page_url (a_href a), l_text = strip (a_text a),
                 l_type = classify (lower (strip (a_text a))) (a_href a),
                 l_source_page = actual_page_url\<rparr>)
         (filter (\<lambda>a. (if skipped_href (a_href a) then False
                       else classify (lower (strip (a_text a))) (a_href a) \<noteq> ''Other''))
            anchors)"
    by (induction anchors arbitrary: links_found) (simp_all add: Let_def)
  show "classify link_text href \<in> set document_type_tags"
    by (rule classify_total)
qed

section \<open>Properties of snapshot load and save\<close>

text \<open>
  A dictionary is taken over member by member, a missing member as an empty
  dictionary, whatever the members are.
\<close>

lemma load_from_json_object:
  "load_from_json (JsonText (JObj members)) =
     \<lparr>attr_companies_info =
        (case map_of members ''companies_info'' of None \<Rightarrow> JObj [] | Some v \<Rightarrow> v),
      attr_document_metadata_store =
        (case map_of members ''document_metadata_store'' of None \<Rightarrow> JObj [] | Some v \<Rightarrow> v),
      attr_summary_metadata_store =
        (case map_of members ''summary_metadata_store'' of None \<Rightarrow> JObj [] | Some v \<Rightarrow> v)\<rparr>"
  by (simp add: load_from_json_def try_load_def)

lemma load_from_json_no_object:
  "\<not> holds_object file \<Longrightarrow> load_from_json file = empty_attributes"
proof (cases "file")
  case (JsonText loaded_data)
  assume "\<not> holds_object file"
  with JsonText show ?thesis
    by (cases loaded_data) (simp_all add: load_from_json_def try_load_def)
qed (simp_all add: load_from_json_def try_load_def)

lemma save_then_load:
  "load_from_json (save_to_json now NoFault self file) = self"
  by (simp add: load_from_json_def try_load_def save_to_json_def)

lemma save_well_formed:
  "well_formed_snapshot (save_to_json now NoFault self file) \<longleftrightarrow> expected_structure self"
  by (simp add: save_to_json_def expected_structure_def)

text \<open>
  Claim C7, as stated: a file whose data cannot be decoded as the expected structure
  loads as the empty store. A file that is the JSON text of a dictionary whose
  \<^verbatim>\<open>document_metadata_store\<close> is a list, or whose \<^verbatim>\<open>companies_info\<close> is
  \<^verbatim>\<open>null\<close>, is loaded as it is: the attribute holds the list, or \<^verbatim>\<open>None\<close>, the store
  is neither empty nor of the expected structure, and the save that follows writes the
  same members back.
\<close>

theorem wrong_shape_is_loaded_counterexample:
  "attr_document_metadata_store (load_from_json list_for_documents) = JArr [JNum 1, JNum 2]
   \<and> load_from_json list_for_documents \<noteq> empty_attributes
   \<and> expected_structure (load_from_json list_for_documents) = False
   \<and> well_formed_snapshot
        (save_to_json ''2024-05-01T02:00:00'' NoFault (load_from_json list_for_documents)
           list_for_documents) = False
   \<and> attr_companies_info (load_from_json null_for_companies) = JNull
   \<and> load_from_json null_for_companies \<noteq> empty_attributes
   \<and> expected_structure (load_from_json null_for_companies) = False"
  by (simp add: list_for_documents_def null_for_companies_def load_from_json_object
        empty_attributes_def expected_structure_def save_to_json_def)

text \<open>
  Claim C7, amended: when the snapshot file is missing, or present but unreadable, not
  JSON text, or the JSON text of a value that is not a dictionary, the store starts
  empty, all three families empty, and no exception leaves the constructor. A save that
  the filesystem lets through then replaces the file by a well-formed snapshot, which
  loads as the empty store again.
\<close>

theorem corrupt_snapshot_loads_empty:
  assumes "\<not> holds_object file"
  shows "load_from_json file = empty_attributes
       \<and> attr_companies_info (load_from_json file) = JObj []
       \<and> attr_document_metadata_store (load_from_json file) = JObj []
       \<and> attr_summary_metadata_store (load_from_json file) = JObj []
       \<and> expected_structure (load_from_json file)
       \<and> well_formed_snapshot (save_to_json now NoFault (load_from_json file) file)
       \<and> save_to_json now NoFault (load_from_json file) file =
           JsonText (JObj [(''companies_info'', JObj []),
                           (''document_metadata_store'', JObj []),
                           (''summary_metadata_store'', JObj []),
                           (''last_saved_at'', JStr now)])
       \<and> load_from_json (save_to_json now NoFault (load_from_json file) file)
           = empty_attributes"
proof -
  have empty: "load_from_json file = empty_attributes"
    using assms by (rule load_from_json_no_object)
  have shape: "expected_structure empty_attributes"
    by (simp add: expected_structure_def empty_attributes_def)
  have written: "save_to_json now NoFault empty_attributes file =
           JsonText (JObj [(''companies_info'', JObj []),
                           (''document_metadata_store'', JObj []),
                           (''summary_metadata_store'', JObj []),
                           (''last_saved_at'', JStr now)])"
    by (simp add: save_to_json_def empty_attributes_def)
  have fields: "attr_companies_info empty_attributes = JObj []"
      "attr_document_metadata_store empty_attributes = JObj []"
      "attr_summary_metadata_store empty_attributes = JObj []"
    by (simp_all add: empty_attributes_def)
  from shape have wf: "well_formed_snapshot (save_to_json now NoFault empty_attributes file)"
    by (simp add: save_well_formed)
  have again: "load_from_json (save_to_json now NoFault empty_attributes file) = empty_attributes"
    by (rule save_then_load)
  from shape written fields wf again show ?thesis
    unfolding empty by blast
qed

theorem corrupt_snapshot_loads_empty_witness:
  "\<not> holds_object NotJson
   \<and> \<not> holds_object (JsonText (JArr [JNum 1, JNum 2]))
   \<and> load_from_json NotJson = empty_attributes
   \<and> load_from_json (JsonText (JArr [JNum 1, JNum 2])) = empty_attributes
   \<and> well_formed_snapshot
        (save_to_json ''2024-05-01T02:00:00'' NoFault (load_from_json NotJson) NotJson)
   \<and> load_from_json
        (save_to_json ''2024-05-01T02:00:00'' NoFault (load_from_json NotJson) NotJson)
       = empty_attributes"
proof -
  have h1: "\<not> holds_object NotJson"
    by simp
  have h2: "\<not> holds_object (JsonText (JArr [JNum 1, JNum 2]))"
    by simp
  from corrupt_snapshot_loads_empty [OF h1, of "''2024-05-01T02:00:00''"]
       corrupt_snapshot_loads_empty [OF h2, of "''2024-05-01T02:00:00''"] h1 h2
  show ?thesis
    by blast
qed

section \<open>Properties of the download operations\<close>

lemma step_cases: "step x = Inr () \<longleftrightarrow> x = None"
  by (cases x) simp_all

lemma catch_all_failed:
  "isl attempt \<Longrightarrow>
     \<not> res_success (catch_all url attempt) \<and> res_metadata (catch_all url attempt) = None
     \<and> (res_status (catch_all url attempt) = Some ''failed_download''
         \<or> res_status (catch_all url attempt) = Some ''failed_unexpected'')"
  by (cases attempt) (simp_all add: catch_all_def failed_outcome_def)

lemma fetch_and_persist_ir_raises:
  "attempt_raises env \<Longrightarrow> isl (fetch_and_persist_ir env doc_info dir base ext)"
  by (cases "env_http_get env"; cases "env_write_file env"; cases "env_hash_file env";
      cases "env_write_meta env")
     (simp_all add: attempt_raises_def fetch_and_persist_ir_def Let_def)

lemma fetch_and_persist_ir_succeeds:
  "\<not> attempt_raises env \<Longrightarrow>
     \<exists>out. fetch_and_persist_ir env doc_info dir base ext = Inr out
        \<and> res_success out \<and> res_status out = Some ''downloaded'' \<and> res_metadata out \<noteq> None"
  by (cases "env_http_get env"; cases "env_write_file env"; cases "env_hash_file env";
      cases "env_write_meta env")
     (simp_all add: attempt_raises_def fetch_and_persist_ir_def Let_def)

lemma fetch_and_persist_sec_raises:
  "attempt_raises env \<Longrightarrow> isl (fetch_and_persist_sec env t c a d f u p)"
  by (cases "env_http_get env"; cases "env_write_file env"; cases "env_hash_file env";
      cases "env_write_meta env")
     (simp_all add: attempt_raises_def fetch_and_persist_sec_def Let_def)

lemma fetch_and_persist_sec_succeeds:
  "\<not> attempt_raises env \<Longrightarrow>
     \<exists>out. fetch_and_persist_sec env t c a d f u p = Inr out
        \<and> res_success out \<and> res_status out = Some ''downloaded'' \<and> res_metadata out \<noteq> None"
  by (cases "env_http_get env"; cases "env_write_file env"; cases "env_hash_file env";
      cases "env_write_meta env")
     (simp_all add: attempt_raises_def fetch_and_persist_sec_def Let_def)

lemma catch_all_fits:
  assumes "\<not> (env_file_exists env \<and> env_meta_exists env)"
      and "attempt_raises env \<Longrightarrow> isl attempt"
      and "\<not> attempt_raises env \<Longrightarrow>
             \<exists>out. attempt = Inr out \<and> res_success out \<and> res_status out = Some ''downloaded''
                \<and> res_metadata out \<noteq> None"
  shows "outcome_fits env (catch_all url attempt)"
proof (cases "attempt_raises env")
  case True
  with assms(2) have "isl attempt"
    by simp
  from catch_all_failed [OF this, of url] True assms(1) show ?thesis
    by (simp add: outcome_fits_def)
next
  case False
  with assms(3) obtain out where "attempt = Inr out" "res_success out"
      "res_status out = Some ''downloaded''"
    by blast
  with False assms(1) show ?thesis
    by (simp add: outcome_fits_def catch_all_def)
qed

lemma download_document_prepared:
  assumes "prepared env"
  shows "\<exists>out. download_document env ticker doc_info = Inr out \<and> outcome_fits env out"
proof (cases "env_file_exists env \<and> env_meta_exists env")
  case True
  with assms obtain m where "env_read_meta env = Inr m"
    by (cases "env_read_meta env") (auto simp: prepared_def)
  with True assms show ?thesis
    by (simp add: download_document_def prepared_def Let_def outcome_fits_def)
next
  case False
  then have no: "(env_file_exists env \<and> env_meta_exists env) = False"
    by simp
  have mk: "step (env_makedirs env) = Inr ()"
    using assms by (simp add: prepared_def)
  have fits: "outcome_fits env (catch_all url (fetch_and_persist_ir env doc_info dir base ext))"
    for url dir base ext
    by (rule catch_all_fits [OF False fetch_and_persist_ir_raises fetch_and_persist_ir_succeeds])
  show ?thesis
    unfolding download_document_def Let_def mk no
    by (simp add: fits)
qed

lemma download_filing_document_prepared:
  assumes "prepared env"
  shows "\<exists>out. download_filing_document df env ticker accession_number document_filename form_type
                  = Inr out
            \<and> (if get_company_cik df ticker = None \<or> get_company_cik df ticker = Some []
               then \<not> res_success out \<and> res_status out = None
               else outcome_fits env out)"
proof (cases "get_company_cik df ticker = None \<or> get_company_cik df ticker = Some []")
  case True
  then show ?thesis
    by (auto simp: download_filing_document_def)
next
  case nocik: False
  then obtain cik_str where cik: "get_company_cik df ticker = Some cik_str" "cik_str \<noteq> []"
    by auto
  have mk: "step (env_makedirs env) = Inr ()"
    using assms by (simp add: prepared_def)
  show ?thesis
  proof (cases "env_file_exists env \<and> env_meta_exists env")
    case True
    with assms obtain m where "env_read_meta env = Inr m"
      by (cases "env_read_meta env") (auto simp: prepared_def)
    with True cik mk show ?thesis
      by (simp add: download_filing_document_def Let_def outcome_fits_def)
  next
    case False
    have fits: "outcome_fits env (catch_all url (fetch_and_persist_sec env t c a d f u p))"
      for url t c a d f u p
      by (rule catch_all_fits [OF False fetch_and_persist_sec_raises fetch_and_persist_sec_succeeds])
    from False have no: "(env_file_exists env \<and> env_meta_exists env) = False"
      by simp
    show ?thesis
      unfolding download_filing_document_def Let_def mk no
      using cik nocik by (simp add: fits)
  qed
qed

lemma process_links_prepared:
  assumes "\<forall>(link_info, env) \<in> set links. prepared env"
  shows "\<exists>results. process_links ticker links acc = Inr (acc @ results)
           \<and> map Inr results =
               map (\<lambda>(link_info, env). download_document env ticker link_info)
                 (filter (\<lambda>(link_info, env). \<not> skipped_link link_info) links)"
  using assms
proof (induction links arbitrary: acc)
  case Nil
  then show ?case
    by simp
next
  case (Cons p rest)
  obtain link_info env where p: "p = (link_info, env)"
    by (cases p)
  from Cons.prems have rest: "\<forall>(link_info, env) \<in> set rest. prepared env"
    by simp
  show ?case
  proof (cases "skipped_link link_info")
    case True
    with Cons.IH [OF rest, of acc] p show ?thesis
      by simp
  next
    case False
    from Cons.prems p have "prepared env"
      by simp
    from download_document_prepared [OF this, of ticker link_info]
    obtain out where out: "download_document env ticker link_info = Inr out"
      by blast
    from Cons.IH [OF rest, of "acc @ [out]"]
    obtain results where "process_links ticker rest (acc @ [out]) = Inr ((acc @ [out]) @ results)"
      and "map Inr results =
               map (\<lambda>(link_info, env). download_document env ticker link_info)
                 (filter (\<lambda>(link_info, env). \<not> skipped_link link_info) rest)"
      by blast
    with False p out have "process_links ticker (p # rest) acc = Inr (acc @ (out # results))
           \<and> map Inr (out # results) =
               map (\<lambda>(link_info, env). download_document env ticker link_info)
                 (filter (\<lambda>(link_info, env). \<not> skipped_link link_info) (p # rest))"
      by simp
    then show ?thesis
      by blast
  qed
qed

text \<open>
  Inside the \<^verbatim>\<open>try\<close> the failure policy holds. Once the target directory is created
  and an existing sidecar, if any, is read back, both download operations return an
  outcome and raise nothing: every exception of the request, the status check, the
  write of the body, the hash and the write of the sidecar is caught and returned as a
  failed outcome (\<^verbatim>\<open>failed_download\<close> or \<^verbatim>\<open>failed_unexpected\<close>), and
  \<^verbatim>\<open>process_company\<close> returns the outcome of every link it does not skip, in order,
  whatever outcomes come before.
\<close>

lemma download_errors_become_outcomes:
  assumes "prepared env"
      and "\<forall>(link_info, env) \<in> set ir_links. prepared env"
  shows "(\<exists>out. download_document env ticker doc_info = Inr out \<and> outcome_fits env out)
       \<and> (\<exists>out. download_filing_document df env ticker accession_number document_filename form_type
                   = Inr out
             \<and> (if get_company_cik df ticker = None \<or> get_company_cik df ticker = Some []
                then \<not> res_success out \<and> res_status out = None
                else outcome_fits env out))
       \<and> (\<exists>results. process_company ticker ir_links = Inr results
             \<and> map Inr results =
                 map (\<lambda>(link_info, env). download_document env ticker link_info)
                   (filter (\<lambda>(link_info, env). \<not> skipped_link link_info) ir_links))"
proof -
  from process_links_prepared [OF assms(2), of ticker "[]"]
  have "\<exists>results. process_company ticker ir_links = Inr results
             \<and> map Inr results =
                 map (\<lambda>(link_info, env). download_document env ticker link_info)
                   (filter (\<lambda>(link_info, env). \<not> skipped_link link_info) ir_links)"
    by (cases ir_links) (auto simp: process_company_def)
  with download_document_prepared [OF assms(1)] download_filing_document_prepared [OF assms(1)]
  show ?thesis
    by blast
qed

lemma download_errors_become_outcomes_at_timeout:
  "prepared timeout_env \<and> prepared fresh_env \<and> attempt_raises timeout_env
   \<and> (\<exists>out. download_document timeout_env ''wmt'' annual_link = Inr out
          \<and> outcome_fits timeout_env out)
   \<and> (\<exists>out. download_filing_document zzz_universe timeout_env ''wmt'' ''0000104169-24-000010''
                ''wmt-10k.htm'' ''10-K'' = Inr out
          \<and> (if get_company_cik zzz_universe ''wmt'' = None
                 \<or> get_company_cik zzz_universe ''wmt'' = Some []
              then \<not> res_success out \<and> res_status out = None
              else outcome_fits timeout_env out))
   \<and> (\<exists>results. process_company ''wmt'' [(annual_link, timeout_env), (slides_link, fresh_env)]
                   = Inr results
          \<and> map Inr results =
              map (\<lambda>(link_info, env). download_document env ''wmt'' link_info)
                (filter (\<lambda>(link_info, env). \<not> skipped_link link_info)
                   [(annual_link, timeout_env), (slides_link, fresh_env)]))
   \<and> download_document timeout_env ''wmt'' annual_link
       = Inr (failed_outcome (Exn RequestException ''Read timed out'') ''https://example.com/10k.pdf'')
   \<and> map_sum id (map res_status)
        (process_company ''wmt'' [(annual_link, timeout_env), (slides_link, fresh_env)])
       = Inr [Some ''failed_download'', Some ''downloaded'']"
proof -
  have p1: "prepared timeout_env"
    by code_simp
  have p2: "prepared fresh_env"
    by code_simp
  have r: "attempt_raises timeout_env"
    by code_simp
  have all: "\<forall>(link_info, env) \<in> set [(annual_link, timeout_env), (slides_link, fresh_env)].
               prepared env"
    using p1 p2 by simp
  have d: "download_document timeout_env ''wmt'' annual_link
       = Inr (failed_outcome (Exn RequestException ''Read timed out'') ''https://example.com/10k.pdf'')"
    by code_simp
  have s: "map_sum id (map res_status)
        (process_company ''wmt'' [(annual_link, timeout_env), (slides_link, fresh_env)])
       = Inr [Some ''failed_download'', Some ''downloaded'']"
    by code_simp
  from download_errors_become_outcomes [OF p1 all, where ticker = "''wmt''" and doc_info = annual_link
      and df = zzz_universe and accession_number = "''0000104169-24-000010''"
      and document_filename = "''wmt-10k.htm''" and form_type = "''10-K''"]
    p1 p2 r d s
  show ?thesis
    by blast
qed

text \<open>
  The two steps before the \<^verbatim>\<open>try\<close> are outside the policy: whatever \<^verbatim>\<open>os.makedirs\<close>
  or the read of an existing sidecar raises leaves the download operation, and ends
  the pass of \<^verbatim>\<open>process_company\<close> over the remaining links.
\<close>

lemma makedirs_error_is_raised:
  "env_makedirs env = Some e \<Longrightarrow> download_document env ticker doc_info = Inl e"
  by (simp add: download_document_def Let_def)

lemma sidecar_error_is_raised:
  assumes "env_makedirs env = None" and "env_file_exists env" and "env_meta_exists env"
      and "env_read_meta env = Inl e"
  shows "download_document env ticker doc_info = Inl e"
  using assms by (simp add: download_document_def Let_def)

lemma filing_makedirs_error_is_raised:
  assumes "get_company_cik df ticker = Some cik_str" and "cik_str \<noteq> []"
      and "env_makedirs env = Some e"
  shows "download_filing_document df env ticker accession_number document_filename form_type
           = Inl e"
  using assms by (simp add: download_filing_document_def Let_def)

lemma filing_sidecar_error_is_raised:
  assumes "get_company_cik df ticker = Some cik_str" and "cik_str \<noteq> []"
      and "env_makedirs env = None" and "env_file_exists env" and "env_meta_exists env"
      and "env_read_meta env = Inl e"
  shows "download_filing_document df env ticker accession_number document_filename form_type
           = Inl e"
  using assms by (simp add: download_filing_document_def Let_def)

lemma raised_error_ends_pass:
  assumes "\<not> skipped_link link_info" and "download_document env ticker link_info = Inl e"
  shows "process_company ticker ((link_info, env) # rest) = Inl e"
  using assms by (simp add: process_company_def)

text \<open>
  Claim C6, at the inputs where the code departs from it. The artifact and its sidecar
  are on disk and the sidecar cannot be read, or the target directory cannot be
  created: the \<^verbatim>\<open>OSError\<close> is raised before the \<^verbatim>\<open>try\<close> is entered, both download
  operations raise it to their caller instead of returning a failed outcome, and
  \<^verbatim>\<open>process_company\<close> ends there without processing the second link.
\<close>

theorem filesystem_error_before_try_is_raised:
  "download_document unreadable_sidecar_env ''aapl'' annual_link
     = Inl (Exn OSError ''Permission denied'')
   \<and> download_filing_document zzz_universe unreadable_sidecar_env ''wmt''
       ''0000104169-24-000010'' ''wmt-10k.htm'' ''10-K''
     = Inl (Exn OSError ''Permission denied'')
   \<and> download_document readonly_env ''aapl'' annual_link
     = Inl (Exn OSError ''Read-only file system'')
   \<and> process_company ''aapl'' [(annual_link, unreadable_sidecar_env), (slides_link, fresh_env)]
     = Inl (Exn OSError ''Permission denied'')"
  by code_simp

text \<open>
  Scenario B end to end: two fetches of \<^verbatim>\<open>https://example.com/10k.pdf\<close> on the same
  day, the first stored, the second found on disk; the route then records one document
  with one call of \<^verbatim>\<open>add_document_metadata\<close>.
\<close>

lemma same_day_refetch:
  "map_sum id (map res_status)
     (process_company ''aapl'' [(annual_link, fresh_env), (annual_link, on_disk_env)])
     = Inr [Some ''downloaded'', Some ''skipped_exists'']
   \<and> map_sum id (map_prod length id)
       (and_then (process_company ''aapl'' [(annual_link, fresh_env), (annual_link, on_disk_env)])
          (\<lambda>results. observed ''aapl'' ''ir''
                        (collect_ir_route ''aapl'' results initialize_empty_store)))
     = Inr (1, 1)"
  by code_simp

end
